theory Spec2Isabelle
  imports Main "HOL-Library.Sublist"
begin

section \<open>The zerogate-go client core\<close>

text \<open>
  A shallow embedding of \<^verbatim>\<open>Client.doRequest\<close>, \<^verbatim>\<open>Client.getClient\<close> and
  \<^verbatim>\<open>Error.Error\<close>, in the version of the sources whose client type is \<^verbatim>\<open>Client\<close> (the
  line numbers below are the ones of that file). The Go code is one sequential pipeline
  with early returns; it is embedded as a function from the state before the call to a
  result and the state after it. What the code calls in the Go standard library and in
  the network (the keyed hash, the JSON codec, the URL parser, the regular-expression
  engine, the dump helpers, the HTTP transport) is not code of this repository: those
  are the fields of an environment record, and every theorem holds for every
  environment. The clock, the log and the stores of maps and structs are fields of the
  state.
\<close>

subsection \<open>Bytes and text\<close>

text \<open>
  A Go \<^verbatim>\<open>string\<close> and a \<^verbatim>\<open>[]byte\<close> are both sequences of 8-bit bytes, as a HOL
  \<^typ>\<open>string\<close> is: the conversions \<^verbatim>\<open>[]byte(s)\<close> and \<^verbatim>\<open>string(b)\<close> are the identity here.
\<close>

type_synonym bytes = string

text \<open>
  \<^verbatim>\<open>fmt.Sprint(now)\<close> on an \<^verbatim>\<open>int64\<close>, and the verb \<^verbatim>\<open>%d\<close> of \<^verbatim>\<open>fmt.Sprintf\<close> on an
  integer, both render the number in base ten, with a leading minus sign when negative.
\<close>

function digits :: "nat \<Rightarrow> string" where
  "digits n = (if n < 10 then [''0123456789'' ! n]
               else digits (n div 10) @ [''0123456789'' ! (n mod 10)])"
  by pat_completeness auto
termination
proof (relation "measure id")
  show "wf (measure id)" by simp
next
  fix n :: nat
  assume "\<not> n < 10"
  then have "n div 10 < n" by (intro div_less_dividend) simp_all
  then show "(n div 10, n) \<in> measure id" by simp
qed

declare digits.simps [simp del]

definition fmt_Sprint :: "int \<Rightarrow> string" where
  "fmt_Sprint i = (if i < 0 then CHR ''-'' # digits (nat (- i)) else digits (nat i))"

text \<open>\<^verbatim>\<open>hex.EncodeToString\<close>: two digits of the table \<^verbatim>\<open>0123456789abcdef\<close> for each byte.\<close>

definition hextable :: string where
  "hextable = ''0123456789abcdef''"

definition hex_EncodeToString :: "bytes \<Rightarrow> string" where
  "hex_EncodeToString src =
     concat (map (\<lambda>v. [hextable ! (of_char v div 16), hextable ! (of_char v mod 16)]) src)"

subsection \<open>Errors\<close>

text \<open>The models of \<^verbatim>\<open>models.go\<close> and of the error type.\<close>

record ErrorResponse =
  ErrorCode :: int
  ErrorMessage :: string
  Success :: bool

record Error =
  Response :: ErrorResponse
  StatusCode :: int

text \<open>
  A Go \<^verbatim>\<open>error\<close> value: one made by a library (known by its message), one made by
  \<^verbatim>\<open>fmt.Errorf(prefix + "%w", err)\<close>, which wraps \<^verbatim>\<open>err\<close> so that the caller can unwrap
  it, or a pointer to an \<^verbatim>\<open>Error\<close> of this package.
\<close>

datatype error =
    errors_New string
  | fmt_Errorf string error
  | Error_ptr Error

text \<open>
  What a piece of code does: it goes on with a value, it returns \<^verbatim>\<open>(nil, err)\<close>, or it
  panics. For \<^verbatim>\<open>doRequest\<close> itself \<open>Ok r\<close> is the return of \<^verbatim>\<open>(r, nil)\<close>.
\<close>

datatype 'a result = Ok 'a | Err error | Panic

text \<open>\<^verbatim>\<open>Error.Error\<close>, the rendered message.\<close>

definition Error_Error :: "Error \<Rightarrow> string" where
  "Error_Error e =
     (if ErrorMessage (Response e) \<noteq> '''' \<and> Error.StatusCode e > 0
      then ErrorMessage (Response e) @ '' ('' @ fmt_Sprint (Error.StatusCode e) @ '')''
      else ''unknown error ('' @ fmt_Sprint (Error.StatusCode e) @ '')'')"

subsection \<open>Readers, headers, requests and responses\<close>

text \<open>
  An \<^verbatim>\<open>io.Reader\<close> is known by what draining it gives: its bytes, and then either the end
  of the stream or an error. (A reader that never ends is not in this model; with one,
  \<^verbatim>\<open>io.ReadAll\<close> does not return.)
\<close>

datatype reader = Reader (content: bytes) (failure: "error option")

definition bytes_NewReader :: "bytes \<Rightarrow> reader" where
  "bytes_NewReader b = Reader b None"

fun io_ReadAll :: "reader \<Rightarrow> error + bytes" where
  "io_ReadAll (Reader b None) = Inr b"
| "io_ReadAll (Reader b (Some e)) = Inl e"

text \<open>
  The \<^verbatim>\<open>body interface{}\<close> parameter, by the cases the code distinguishes: the nil
  interface, a value that is an \<^verbatim>\<open>io.Reader\<close>, a \<^verbatim>\<open>[]byte\<close>, anything else.
\<close>

datatype 'v body = Body_nil | Body_Reader reader | Body_bytes bytes | Body_value 'v

text \<open>
  \<^verbatim>\<open>http.Header\<close> is \<^verbatim>\<open>map[string][]string\<close>. A Go map is a reference: header maps live
  in a store (a list, addressed by position), \<^verbatim>\<open>make(http.Header)\<close> appends an empty
  map, and a variable of type \<^verbatim>\<open>http.Header\<close> holds an address or nil.
\<close>

type_synonym http_Header = "string \<rightharpoonup> string list"

text \<open>
  Of \<^verbatim>\<open>url.URL\<close> only the fields \<^verbatim>\<open>doRequest\<close> reads or writes are kept, of
  \<^verbatim>\<open>http.Request\<close> and \<^verbatim>\<open>http.Response\<close> the ones it sets or reads. \<open>ReqBody\<close> is the
  field \<^verbatim>\<open>Body\<close> of the request, \<open>Resp...\<close> are the fields of the response.
\<close>

record URL =
  Path :: string
  RawQuery :: string

record 'ctx Request =
  Ctx :: 'ctx
  Method :: string
  URL :: URL
  Header :: nat
  ReqBody :: "reader option"

record Response =
  RespStatus :: string
  RespStatusCode :: int
  RespHeader :: http_Header
  RespBody :: reader

record APIResponse =
  Body :: bytes
  Status :: string
  StatusCode :: int
  Headers :: http_Header

subsection \<open>The client and the state around a call\<close>

text \<open>
  The fields of \<^verbatim>\<open>Client\<close> that \<^verbatim>\<open>doRequest\<close> and \<^verbatim>\<open>getClient\<close> use. \<open>headers\<close> is the
  address of the default header map, \<open>httpClient\<close> the address of an \<^verbatim>\<open>http.Client\<close>
  struct; \<open>None\<close> is nil. The mutex is taken and released around the reads and is not
  modelled: a call is followed alone, without concurrent writers.
\<close>

record Client =
  apiKey :: string
  apiSecret :: string
  baseUrl :: string
  debug :: bool
  userAgent :: string
  headers :: "nat option"
  httpClient :: "nat option"

text \<open>
  The state: the client, the store of header maps, the store of \<^verbatim>\<open>http.Client\<close> structs
  (of an unspecified type \<open>'hc\<close>), the clock (\<open>unix_clock k\<close> is what the \<open>k\<close>-th call
  of \<^verbatim>\<open>time.Now().Unix()\<close> gives, \<open>unix_reads\<close> counts these calls), the messages handed
  to \<^verbatim>\<open>log.Printf\<close>, and the requests handed to \<^verbatim>\<open>client.Do\<close>, each with the contents of
  its header map at that moment.
\<close>

record ('ctx, 'hc) world =
  client :: Client
  hdr_heap :: "http_Header list"
  hc_heap :: "'hc list"
  unix_clock :: "nat \<Rightarrow> int"
  unix_reads :: nat
  log_out :: "string list"
  sent :: "('ctx Request \<times> http_Header) list"

text \<open>
  The library and the network. \<open>hmac_sha512 key msg\<close> is the digest of
  \<^verbatim>\<open>hmac.New(sha512.New, key)\<close> after \<open>msg\<close> has been written to it.
  \<open>regexp_compiles p\<close> says whether \<^verbatim>\<open>regexp.MustCompile(p)\<close> returns (it panics
  otherwise), \<open>regexp_ReplaceAll p src repl\<close> is \<^verbatim>\<open>ReplaceAll\<close> of the compiled \<open>p\<close>.
  \<open>http_Client_Do\<close> is \<^verbatim>\<open>Do\<close> on an \<^verbatim>\<open>http.Client\<close> struct: it gives a response or an
  error (a cancelled or expired context is one of its errors) and the struct as it
  leaves it.
\<close>

record ('v, 'ctx, 'hc) env =
  hmac_sha512 :: "bytes \<Rightarrow> bytes \<Rightarrow> bytes"
  json_Marshal :: "'v \<Rightarrow> error + bytes"
  json_Unmarshal :: "bytes \<Rightarrow> error + ErrorResponse"
  http_validMethod :: "string \<Rightarrow> bool"
  url_Parse :: "string \<Rightarrow> error + URL"
  url_Values_Encode :: "(string \<rightharpoonup> string list) \<Rightarrow> string"
  httputil_DumpRequestOut :: "'ctx Request \<Rightarrow> http_Header \<Rightarrow> error + bytes"
  httputil_DumpResponse :: "Response \<Rightarrow> error + bytes"
  regexp_compiles :: "string \<Rightarrow> bool"
  regexp_ReplaceAll :: "string \<Rightarrow> bytes \<Rightarrow> bytes \<Rightarrow> bytes"
  http_Client_Do :: "'hc \<Rightarrow> 'ctx Request \<Rightarrow> http_Header \<Rightarrow> (error + Response) \<times> 'hc"

subsection \<open>Library operations with a fixed meaning\<close>

abbreviation http_MethodPost :: string where
  "http_MethodPost \<equiv> ''POST''"

abbreviation http_MethodPut :: string where
  "http_MethodPut \<equiv> ''PUT''"

abbreviation http_StatusBadRequest :: int where
  "http_StatusBadRequest \<equiv> 400"

definition time_Now_Unix :: "('ctx, 'hc) world \<Rightarrow> int \<times> ('ctx, 'hc) world" where
  "time_Now_Unix w = (unix_clock w (unix_reads w), w\<lparr>unix_reads := Suc (unix_reads w)\<rparr>)"

text \<open>
  \<^verbatim>\<open>make(http.Header)\<close>: a new, empty map at an address not in use. The maps that
  \<^verbatim>\<open>doRequest\<close> writes to are at addresses obtained here, which are in the store.
\<close>

definition make_Header :: "('ctx, 'hc) world \<Rightarrow> nat \<times> ('ctx, 'hc) world" where
  "make_Header w = (length (hdr_heap w), w\<lparr>hdr_heap := hdr_heap w @ [Map.empty]\<rparr>)"

text \<open>
  The contents of a header variable. Ranging over a nil map visits nothing; an address
  beyond the store does not arise in Go and reads as the empty map.
\<close>

definition hdr_at :: "('ctx, 'hc) world \<Rightarrow> nat option \<Rightarrow> http_Header" where
  "hdr_at w r = (case r of None \<Rightarrow> Map.empty
                 | Some a \<Rightarrow> if a < length (hdr_heap w) then hdr_heap w ! a else Map.empty)"

text \<open>
  The loop \<^verbatim>\<open>for k, v := range src { dst[k] = v }\<close>: every entry of \<open>src\<close> is stored in
  the map at \<open>dst\<close>, over an entry of the same key.
\<close>

definition range_assign :: "('ctx, 'hc) world \<Rightarrow> nat \<Rightarrow> nat option \<Rightarrow> ('ctx, 'hc) world" where
  "range_assign w dst src = w\<lparr>hdr_heap := (hdr_heap w)[dst := (hdr_heap w ! dst) ++ hdr_at w src]\<rparr>"

text \<open>
  \<^verbatim>\<open>Header.Set\<close> and \<^verbatim>\<open>Header.Get\<close>. Both put the key in canonical form first; the three
  keys \<^verbatim>\<open>doRequest\<close> uses (\<^verbatim>\<open>Authorization\<close>, \<^verbatim>\<open>User-Agent\<close>, \<^verbatim>\<open>Content-Type\<close>) are in
  canonical form already. \<^verbatim>\<open>Set\<close> replaces the entry by the one-element list, \<^verbatim>\<open>Get\<close>
  gives the first value of the entry, or the empty string.
\<close>

definition Header_Set :: "('ctx, 'hc) world \<Rightarrow> nat \<Rightarrow> string \<Rightarrow> string \<Rightarrow> ('ctx, 'hc) world" where
  "Header_Set w h key val = w\<lparr>hdr_heap := (hdr_heap w)[h := (hdr_heap w ! h)(key \<mapsto> [val])]\<rparr>"

definition map_Get :: "http_Header \<Rightarrow> string \<Rightarrow> string" where
  "map_Get m key = (case m key of None \<Rightarrow> '''' | Some [] \<Rightarrow> '''' | Some (v # _) \<Rightarrow> v)"

definition Header_Get :: "('ctx, 'hc) world \<Rightarrow> nat \<Rightarrow> string \<Rightarrow> string" where
  "Header_Get w h key = map_Get (hdr_heap w ! h) key"

text \<open>
  The \<^verbatim>\<open>hash.Hash\<close> made by \<^verbatim>\<open>hmac.New(sha512.New, key)\<close>: \<^verbatim>\<open>Write\<close> appends to what has
  been written, \<^verbatim>\<open>Sum(nil)\<close> is the digest of all of it under the key.
\<close>

record hmac_hash =
  hkey :: bytes
  written :: bytes

definition hmac_New :: "bytes \<Rightarrow> hmac_hash" where
  "hmac_New key = \<lparr>hkey = key, written = []\<rparr>"

definition hash_Write :: "hmac_hash \<Rightarrow> bytes \<Rightarrow> hmac_hash" where
  "hash_Write h p = h\<lparr>written := written h @ p\<rparr>"

definition hash_Sum :: "('v, 'ctx, 'hc) env \<Rightarrow> hmac_hash \<Rightarrow> bytes" where
  "hash_Sum env h = hmac_sha512 env (hkey h) (written h)"

text \<open>
  \<^verbatim>\<open>http.NewRequestWithContext\<close>: an empty method means \<^verbatim>\<open>GET\<close>; an invalid method, a
  nil context and a URL that does not parse are errors; the request gets a header map of
  its own and the body it was given (nil stays nil).
\<close>

definition http_NewRequestWithContext ::
  "('v, 'ctx, 'hc) env \<Rightarrow> ('ctx, 'hc) world \<Rightarrow> 'ctx option \<Rightarrow> string \<Rightarrow> string \<Rightarrow> reader option
   \<Rightarrow> 'ctx Request result \<times> ('ctx, 'hc) world" where
  "http_NewRequestWithContext env w ctx method url body =
     (let method = (if method = '''' then ''GET'' else method) in
      if \<not> http_validMethod env method then (Err (errors_New ''net/http: invalid method''), w)
      else case ctx of
        None \<Rightarrow> (Err (errors_New ''net/http: nil Context''), w)
      | Some cx \<Rightarrow>
          (case url_Parse env url of
             Inl err \<Rightarrow> (Err err, w)
           | Inr u \<Rightarrow>
               (let (h, w) = make_Header w
                in (Ok \<lparr>Ctx = cx, Method = method, URL = u, Header = h, ReqBody = body\<rparr>, w))))"

text \<open>
  \<^verbatim>\<open>url.Values\<close> after \<^verbatim>\<open>values.Add(k, vv)\<close> for every value of every key of the query: the
  query itself, without the keys that have no value.
\<close>

definition url_Values :: "(string \<rightharpoonup> string list) \<Rightarrow> (string \<rightharpoonup> string list)" where
  "url_Values query = (\<lambda>k. case query k of None \<Rightarrow> None | Some [] \<Rightarrow> None | Some (v # vs) \<Rightarrow> Some (v # vs))"

subsection \<open>\<^verbatim>\<open>getClient\<close>\<close>

text \<open>
  The struct behind \<open>httpClient\<close> is copied to a new address, which is returned.
  Dereferencing nil panics (\<open>None\<close>).
\<close>

definition getClient :: "('ctx, 'hc) world \<Rightarrow> (nat \<times> ('ctx, 'hc) world) option" where
  "getClient w =
     (case httpClient (client w) of
        None \<Rightarrow> None
      | Some a \<Rightarrow>
          if a < length (hc_heap w)
          then Some (length (hc_heap w), w\<lparr>hc_heap := hc_heap w @ [hc_heap w ! a]\<rparr>)
          else None)"

subsection \<open>\<^verbatim>\<open>doRequest\<close>\<close>

text \<open>
  Lines 152 to 177: the reader chosen for the body, then, for \<^verbatim>\<open>POST\<close> and \<^verbatim>\<open>PUT\<close>, the
  bytes read from it, and the reader over these bytes that replaces it. The result is the
  pair of \<^verbatim>\<open>bodyBytes\<close> and \<^verbatim>\<open>reqBody\<close>.
\<close>

definition request_body ::
  "('v, 'ctx, 'hc) env \<Rightarrow> string \<Rightarrow> 'v body \<Rightarrow> (bytes \<times> reader option) result" where
  "request_body env method body =
     (case (if body \<noteq> Body_nil \<and> (method = http_MethodPost \<or> method = http_MethodPut) then
              (case body of
                 Body_Reader r \<Rightarrow> Ok (Some r)
               | Body_bytes bodyBytes \<Rightarrow> Ok (Some (bytes_NewReader bodyBytes))
               | Body_value v \<Rightarrow>
                   (case json_Marshal env v of
                      Inl err \<Rightarrow> Err (fmt_Errorf ''error marshalling body to JSON: '' err)
                    | Inr jsonBody \<Rightarrow> Ok (Some (bytes_NewReader jsonBody)))
               | Body_nil \<Rightarrow> Ok None)
            else if method = http_MethodPost \<or> method = http_MethodPut then
              Ok (Some (bytes_NewReader ''{}''))
            else Ok None) of
        Err e \<Rightarrow> Err e
      | Panic \<Rightarrow> Panic
      | Ok reqBody \<Rightarrow>
          if method = http_MethodPost \<or> method = http_MethodPut then
            (case reqBody of
               None \<Rightarrow> Panic
             | Some r \<Rightarrow>
                 (case io_ReadAll r of
                    Inl err \<Rightarrow> Err (fmt_Errorf ''error reading body: '' err)
                  | Inr bodyBytes \<Rightarrow> Ok (bodyBytes, Some (bytes_NewReader bodyBytes))))
          else Ok ([], reqBody))"

text \<open>
  Line 216: \<^verbatim>\<open>fmt.Sprintf("APIKey=%s, Signature=%s, Nonce=%d", apiKey, signature, now)\<close>.
\<close>

definition Authorization_Sprintf :: "string \<Rightarrow> string \<Rightarrow> int \<Rightarrow> string" where
  "Authorization_Sprintf key signature now =
     ''APIKey='' @ key @ '', Signature='' @ signature @ '', Nonce='' @ fmt_Sprint now"

text \<open>
  Lines 187 to 222, with the fields of the client as read in lines 143 to 150 (\<open>c\<close>):
  the query string, the merged headers, the signature and the three headers set on the
  request. This part has no early return.
\<close>

definition sign_request ::
  "('v, 'ctx, 'hc) env \<Rightarrow> ('ctx, 'hc) world \<Rightarrow> Client \<Rightarrow> string \<Rightarrow> (string \<rightharpoonup> string list)
   \<Rightarrow> nat option \<Rightarrow> bytes \<Rightarrow> int \<Rightarrow> 'ctx Request \<Rightarrow> 'ctx Request \<times> ('ctx, 'hc) world" where
  "sign_request env w c method query hdrs bodyBytes now req =
     (let queryString = url_Values_Encode env (url_Values query);
          req = req\<lparr>URL := (URL req)\<lparr>RawQuery := queryString\<rparr>\<rparr>;
          (combinedHeaders, w) = make_Header w;
          w = range_assign w combinedHeaders (headers c);
          w = range_assign w combinedHeaders hdrs;
          req = req\<lparr>Header := combinedHeaders\<rparr>;
          message = Method req @ Path (URL req) @ fmt_Sprint now;
          h = hmac_New (apiSecret c);
          h = hash_Write h message;
          h = (if method = http_MethodPost \<or> method = http_MethodPut
               then hash_Write h bodyBytes else h);
          signature = hex_EncodeToString (hash_Sum env h);
          w = Header_Set w (Header req) ''Authorization''
                (Authorization_Sprintf (apiKey c) signature now);
          w = (if userAgent c \<noteq> '''' then Header_Set w (Header req) ''User-Agent'' (userAgent c)
               else w);
          w = (if Header_Get w (Header req) ''Content-Type'' = ''''
               then Header_Set w (Header req) ''Content-Type'' ''application/json''
               else w)
      in (req, w))"

text \<open>Lines 180 to 222: the timestamp, the request, and the part above.\<close>

definition build_request ::
  "('v, 'ctx, 'hc) env \<Rightarrow> ('ctx, 'hc) world \<Rightarrow> Client \<Rightarrow> 'ctx option \<Rightarrow> string \<Rightarrow> string
   \<Rightarrow> (string \<rightharpoonup> string list) \<Rightarrow> nat option \<Rightarrow> bytes \<Rightarrow> reader option
   \<Rightarrow> 'ctx Request result \<times> ('ctx, 'hc) world" where
  "build_request env w c ctx method endpoint query hdrs bodyBytes reqBody =
     (let (now, w) = time_Now_Unix w in
      case http_NewRequestWithContext env w ctx method (baseUrl c @ endpoint) reqBody of
        (Err err, w) \<Rightarrow> (Err (fmt_Errorf ''ZeroGate request creation failed: '' err), w)
      | (Panic, w) \<Rightarrow> (Panic, w)
      | (Ok req, w) \<Rightarrow>
          (let (req, w) = sign_request env w c method query hdrs bodyBytes now req
           in (Ok req, w)))"

text \<open>
  Lines 230 to 236: the loop over the two sensitive keys. Each non-empty key is compiled
  as a regular expression and its matches in the dump are replaced by the marker;
  \<open>None\<close> is the panic of \<^verbatim>\<open>regexp.MustCompile\<close>.
\<close>

fun redact :: "('v, 'ctx, 'hc) env \<Rightarrow> string list \<Rightarrow> bytes \<Rightarrow> bytes option" where
  "redact env [] dump = Some dump"
| "redact env (key # sensitiveKeys) dump =
     (if key \<noteq> '''' then
        (if regexp_compiles env (''(?m)'' @ key)
         then redact env sensitiveKeys
                (regexp_ReplaceAll env (''(?m)'' @ key) dump ''[**************]'')
         else None)
      else redact env sensitiveKeys dump)"

text \<open>Lines 257 to 275: the result, from the response and the bytes of its body.\<close>

definition response_result ::
  "('v, 'ctx, 'hc) env \<Rightarrow> Response \<Rightarrow> bytes \<Rightarrow> APIResponse result" where
  "response_result env resp respBody =
     (if RespStatusCode resp \<ge> http_StatusBadRequest then
        (case json_Unmarshal env respBody of
           Inl err \<Rightarrow> Err (fmt_Errorf ''failed to unmarshal response body: '' err)
         | Inr r \<Rightarrow> Err (Error_ptr \<lparr>Response = r, StatusCode = RespStatusCode resp\<rparr>))
      else Ok \<lparr>Body = respBody, Status = RespStatus resp,
               StatusCode = RespStatusCode resp, Headers = RespHeader resp\<rparr>)"

text \<open>
  Lines 239 to 275: the copy of the \<^verbatim>\<open>http.Client\<close>, the exchange, the dump of the
  response when debugging, the body, the result.
\<close>

definition exchange ::
  "('v, 'ctx, 'hc) env \<Rightarrow> ('ctx, 'hc) world \<Rightarrow> Client \<Rightarrow> 'ctx Request
   \<Rightarrow> APIResponse result \<times> ('ctx, 'hc) world" where
  "exchange env w c req =
     (case getClient w of
        None \<Rightarrow> (Panic, w)
      | Some (cl, w) \<Rightarrow>
          (let (r, hc') = http_Client_Do env (hc_heap w ! cl) req (hdr_heap w ! Header req);
               w = w\<lparr>hc_heap := (hc_heap w)[cl := hc'],
                      sent := sent w @ [(req, hdr_heap w ! Header req)]\<rparr>
           in case r of
                Inl err \<Rightarrow> (Err (fmt_Errorf ''ZeroGate request failed: '' err), w)
              | Inr resp \<Rightarrow>
                  (case (if debug c then
                           (case httputil_DumpResponse env resp of
                              Inl err \<Rightarrow> (Err err, w)
                            | Inr dump \<Rightarrow> (Ok (), w\<lparr>log_out := log_out w @ [CHR 0x0A # dump]\<rparr>))
                         else (Ok (), w)) of
                     (Err err, w) \<Rightarrow> (Err err, w)
                   | (Panic, w) \<Rightarrow> (Panic, w)
                   | (Ok u, w) \<Rightarrow>
                       (case io_ReadAll (RespBody resp) of
                          Inl err \<Rightarrow> (Err (fmt_Errorf ''response read failed: '' err), w)
                        | Inr respBody \<Rightarrow> (response_result env resp respBody, w)))))"

text \<open>
  Lines 224 to 238: the dump of the request when debugging, redacted and logged; then the
  exchange.
\<close>

definition dump_and_exchange ::
  "('v, 'ctx, 'hc) env \<Rightarrow> ('ctx, 'hc) world \<Rightarrow> Client \<Rightarrow> 'ctx Request
   \<Rightarrow> APIResponse result \<times> ('ctx, 'hc) world" where
  "dump_and_exchange env w c req =
     (if debug c then
        (case httputil_DumpRequestOut env req (hdr_heap w ! Header req) of
           Inl err \<Rightarrow> (Err err, w)
         | Inr dump \<Rightarrow>
             (case redact env [apiKey c, apiSecret c] dump of
                None \<Rightarrow> (Panic, w)
              | Some dump \<Rightarrow> exchange env (w\<lparr>log_out := log_out w @ [CHR 0x0A # dump]\<rparr>) c req))
      else exchange env w c req)"

text \<open>The whole function: the fields of the client are read first (lines 143 to 150).\<close>

definition doRequest ::
  "('v, 'ctx, 'hc) env \<Rightarrow> ('ctx, 'hc) world \<Rightarrow> 'ctx option \<Rightarrow> string \<Rightarrow> string
   \<Rightarrow> (string \<rightharpoonup> string list) \<Rightarrow> 'v body \<Rightarrow> nat option
   \<Rightarrow> APIResponse result \<times> ('ctx, 'hc) world" where
  "doRequest env w ctx method endpoint query body hdrs =
     (let c = client w in
      case request_body env method body of
        Err err \<Rightarrow> (Err err, w)
      | Panic \<Rightarrow> (Panic, w)
      | Ok (bodyBytes, reqBody) \<Rightarrow>
          (case build_request env w c ctx method endpoint query hdrs bodyBytes reqBody of
             (Err err, w) \<Rightarrow> (Err err, w)
           | (Panic, w) \<Rightarrow> (Panic, w)
           | (Ok req, w) \<Rightarrow> dump_and_exchange env w c req))"

subsection \<open>Notions used in the statements\<close>

text \<open>
  A header variable is valid in a state when it is nil or the address of a map of the
  store. Go has no other header variables.
\<close>

definition valid_ref :: "('ctx, 'hc) world \<Rightarrow> nat option \<Rightarrow> bool" where
  "valid_ref w r = (case r of None \<Rightarrow> True | Some a \<Rightarrow> a < length (hdr_heap w))"

text \<open>
  The map that lines 216 to 222 leave, from the merged map \<open>M\<close> and the value \<open>auth\<close> of
  the \<^verbatim>\<open>Authorization\<close> header: the three \<^verbatim>\<open>Set\<close> calls on a map, without the store.
\<close>

definition finish_headers :: "Client \<Rightarrow> string \<Rightarrow> http_Header \<Rightarrow> http_Header" where
  "finish_headers c auth M =
     (let H1 = M(''Authorization'' \<mapsto> [auth]);
          H2 = (if userAgent c \<noteq> '''' then H1(''User-Agent'' \<mapsto> [userAgent c]) else H1)
      in if map_Get H2 ''Content-Type'' = ''''
         then H2(''Content-Type'' \<mapsto> [''application/json'']) else H2)"

definition merged :: "('ctx, 'hc) world \<Rightarrow> nat option \<Rightarrow> nat option \<Rightarrow> http_Header \<Rightarrow> bool" where
  "merged w r1 r2 M = (valid_ref w r1 \<and> valid_ref w r2 \<longrightarrow> M = hdr_at w r1 ++ hdr_at w r2)"

subsection \<open>A test double\<close>

text \<open>
  An environment, a client and a state on which the functions above can be run: the
  keyed hash is replaced by the concatenation of key and message, the regular
  expressions by literal search, the server answers \<^verbatim>\<open>404\<close> with an error envelope on
  \<^verbatim>\<open>/missing\<close>, \<^verbatim>\<open>502\<close> with a body that is not JSON on \<^verbatim>\<open>/broken\<close>, and echoes the
  \<^verbatim>\<open>Authorization\<close> header otherwise. An \<^verbatim>\<open>http.Client\<close> is the number of exchanges
  made through it.
\<close>

function literal_ReplaceAll :: "string \<Rightarrow> string \<Rightarrow> string \<Rightarrow> string" where
  "literal_ReplaceAll pat [] repl = []"
| "literal_ReplaceAll pat (c # cs) repl =
     (if pat \<noteq> [] \<and> take (length pat) (c # cs) = pat
      then repl @ literal_ReplaceAll pat (drop (length pat) (c # cs)) repl
      else c # literal_ReplaceAll pat cs repl)"
  by pat_completeness auto
termination
  by (relation "measure (\<lambda>(pat, src, repl). length src)") (auto simp: neq_Nil_conv)

definition test_env :: "(string, unit, nat) env" where
  \<open>test_env =
     \<lparr>hmac_sha512 = (\<lambda>key msg. key @ msg),
      json_Marshal = (\<lambda>v. Inr v),
      json_Unmarshal =
        (\<lambda>b. if b = ''{"success":false,"error_code":404,"error_message":"not found"}''
             then Inr \<lparr>ErrorCode = 404, ErrorMessage = ''not found'', Success = False\<rparr>
             else Inl (errors_New ''invalid character'')),
      http_validMethod = (\<lambda>m. m \<in> set [''GET'', ''POST'', ''PUT'', ''DELETE'']),
      url_Parse = (\<lambda>u. Inr \<lparr>Path = drop 16 u, RawQuery = ''''\<rparr>),
      url_Values_Encode = (\<lambda>q. ''''),
      httputil_DumpRequestOut =
        (\<lambda>req H. Inr (Method req @ '' '' @ Path (URL req) @ '' HTTP/1.1 Authorization: ''
                        @ map_Get H ''Authorization'')),
      httputil_DumpResponse =
        (\<lambda>resp. Inr (''HTTP/1.1 '' @ RespStatus resp @ '' '' @ content (RespBody resp))),
      regexp_compiles = (\<lambda>p. True),
      regexp_ReplaceAll = (\<lambda>p src repl. literal_ReplaceAll (drop 4 p) src repl),
      http_Client_Do = (\<lambda>hc req H.
         (if Path (URL req) = ''/missing''
          then Inr \<lparr>RespStatus = ''404 Not Found'', RespStatusCode = 404, RespHeader = Map.empty,
                     RespBody = Reader ''{"success":false,"error_code":404,"error_message":"not found"}'' None\<rparr>
          else if Path (URL req) = ''/broken''
          then Inr \<lparr>RespStatus = ''502 Bad Gateway'', RespStatusCode = 502, RespHeader = Map.empty,
                     RespBody = Reader ''<html>502</html>'' None\<rparr>
          else Inr \<lparr>RespStatus = ''200 OK'', RespStatusCode = 200, RespHeader = Map.empty,
                     RespBody = Reader (''{"success":true,"data":"'' @ map_Get H ''Authorization'' @ ''"}'') None\<rparr>,
          Suc hc))\<rparr>\<close>

definition test_client :: Client where
  "test_client =
     \<lparr>apiKey = ''key_5fbea669'', apiSecret = ''1f4f6db557e4'', baseUrl = ''http://localhost'',
      debug = False, userAgent = ''zerogate-go'', headers = Some 0, httpClient = Some 0\<rparr>"

text \<open>
  The store holds the default headers of the client at address 0 and, at address 1, a
  map that a caller may pass as the headers of a call.
\<close>

definition test_world :: "(unit, nat) world" where
  "test_world =
     \<lparr>client = test_client,
      hdr_heap = [[''Accept'' \<mapsto> [''application/json''], ''X-Env'' \<mapsto> [''default'']],
                  [''X-Env'' \<mapsto> [''call''], ''User-Agent'' \<mapsto> [''custom'']]],
      hc_heap = [0],
      unix_clock = (\<lambda>k. 1700000000), unix_reads = 0, log_out = [], sent = []\<rparr>"

text \<open>The request that a \<^verbatim>\<open>POST\<close> of a JSON value to \<^verbatim>\<open>/post\<close> hands to the transport.\<close>

definition post_request :: "unit Request" where
  \<open>post_request =
     \<lparr>Ctx = (), Method = ''POST'', URL = \<lparr>Path = ''/post'', RawQuery = ''''\<rparr>,
      Header = 3, ReqBody = Some (Reader ''{"name":"Test"}'' None)\<rparr>\<close>

definition post_header :: http_Header where
  "post_header =
     [''Accept'' \<mapsto> [''application/json''], ''X-Env'' \<mapsto> [''default''],
      ''Authorization'' \<mapsto> [''APIKey=key_5fbea669, Signature=316634663664623535376534504f53542f706f7374313730303030303030307b226e616d65223a2254657374227d, Nonce=1700000000''],
      ''User-Agent'' \<mapsto> [''zerogate-go''], ''Content-Type'' \<mapsto> [''application/json'']]"

text \<open>
  The request of a \<^verbatim>\<open>GET\<close> of \<^verbatim>\<open>/get\<close> made with the headers at address 1, the requests
  of a \<^verbatim>\<open>PUT\<close> to \<^verbatim>\<open>/put\<close> and of a \<^verbatim>\<open>GET\<close> of \<^verbatim>\<open>/missing\<close> and of \<^verbatim>\<open>/broken\<close>, made
  without headers, and the answers of the server.
\<close>

definition get_request :: "unit Request" where
  "get_request =
     \<lparr>Ctx = (), Method = ''GET'', URL = \<lparr>Path = ''/get'', RawQuery = ''''\<rparr>,
      Header = 3, ReqBody = None\<rparr>"

definition get_header :: http_Header where
  "get_header =
     [''Accept'' \<mapsto> [''application/json''], ''X-Env'' \<mapsto> [''call''],
      ''Authorization'' \<mapsto> [''APIKey=key_5fbea669, Signature=3166346636646235353765344745542f67657431373030303030303030, Nonce=1700000000''],
      ''User-Agent'' \<mapsto> [''zerogate-go''], ''Content-Type'' \<mapsto> [''application/json'']]"

definition put_request :: "unit Request" where
  "put_request =
     \<lparr>Ctx = (), Method = ''PUT'', URL = \<lparr>Path = ''/put'', RawQuery = ''''\<rparr>,
      Header = 3, ReqBody = Some (Reader ''{}'' None)\<rparr>"

definition put_header :: http_Header where
  "put_header =
     [''Accept'' \<mapsto> [''application/json''], ''X-Env'' \<mapsto> [''default''],
      ''Authorization'' \<mapsto> [''APIKey=key_5fbea669, Signature=3166346636646235353765345055542f707574313730303030303030307b7d, Nonce=1700000000''],
      ''User-Agent'' \<mapsto> [''zerogate-go''], ''Content-Type'' \<mapsto> [''application/json'']]"

definition missing_request :: "unit Request" where
  "missing_request =
     \<lparr>Ctx = (), Method = ''GET'', URL = \<lparr>Path = ''/missing'', RawQuery = ''''\<rparr>,
      Header = 3, ReqBody = None\<rparr>"

definition missing_header :: http_Header where
  "missing_header =
     [''Accept'' \<mapsto> [''application/json''], ''X-Env'' \<mapsto> [''default''],
      ''Authorization'' \<mapsto> [''APIKey=key_5fbea669, Signature=3166346636646235353765344745542f6d697373696e6731373030303030303030, Nonce=1700000000''],
      ''User-Agent'' \<mapsto> [''zerogate-go''], ''Content-Type'' \<mapsto> [''application/json'']]"

definition not_found_response :: Response where
  \<open>not_found_response =
     \<lparr>RespStatus = ''404 Not Found'', RespStatusCode = 404, RespHeader = Map.empty,
      RespBody = Reader ''{"success":false,"error_code":404,"error_message":"not found"}'' None\<rparr>\<close>

definition echo_response :: Response where
  \<open>echo_response =
     \<lparr>RespStatus = ''200 OK'', RespStatusCode = 200, RespHeader = Map.empty,
      RespBody = Reader ''{"success":true,"data":"APIKey=key_5fbea669, Signature=3166346636646235353765344745542f67657431373030303030303030, Nonce=1700000000"}'' None\<rparr>\<close>

definition broken_request :: "unit Request" where
  "broken_request =
     \<lparr>Ctx = (), Method = ''GET'', URL = \<lparr>Path = ''/broken'', RawQuery = ''''\<rparr>,
      Header = 3, ReqBody = None\<rparr>"

definition broken_header :: http_Header where
  "broken_header =
     [''Accept'' \<mapsto> [''application/json''], ''X-Env'' \<mapsto> [''default''],
      ''Authorization'' \<mapsto> [''APIKey=key_5fbea669, Signature=3166346636646235353765344745542f62726f6b656e31373030303030303030, Nonce=1700000000''],
      ''User-Agent'' \<mapsto> [''zerogate-go''], ''Content-Type'' \<mapsto> [''application/json'']]"

definition bad_gateway_response :: Response where
  "bad_gateway_response =
     \<lparr>RespStatus = ''502 Bad Gateway'', RespStatusCode = 502, RespHeader = Map.empty,
      RespBody = Reader ''<html>502</html>'' None\<rparr>"

text \<open>The same state with the debug flag of the client set.\<close>

definition debug_world :: "(unit, nat) world" where
  "debug_world = test_world\<lparr>client := test_client\<lparr>debug := True\<rparr>\<rparr>"

section \<open>Properties\<close>

subsection \<open>The store of header maps\<close>

lemma world_fields [simp]:
  "client (range_assign w d s) = client w" "hc_heap (range_assign w d s) = hc_heap w"
  "sent (range_assign w d s) = sent w" "log_out (range_assign w d s) = log_out w"
  "unix_clock (range_assign w d s) = unix_clock w" "unix_reads (range_assign w d s) = unix_reads w"
  "client (Header_Set w h k v) = client w" "hc_heap (Header_Set w h k v) = hc_heap w"
  "sent (Header_Set w h k v) = sent w" "log_out (Header_Set w h k v) = log_out w"
  "unix_clock (Header_Set w h k v) = unix_clock w" "unix_reads (Header_Set w h k v) = unix_reads w"
  by (simp_all add: range_assign_def Header_Set_def)

lemma hdr_heap_range_assign_fresh:
  "hdr_heap w = xs @ [m] \<Longrightarrow>
   \<exists>m'. hdr_heap (range_assign w (length xs) src) = xs @ [m'] \<and>
     ((case src of None \<Rightarrow> True | Some a \<Rightarrow> a < length xs)
        \<longrightarrow> m' = m ++ (case src of None \<Rightarrow> Map.empty | Some a \<Rightarrow> xs ! a))"
  by (auto simp: range_assign_def hdr_at_def nth_append split: option.splits)

lemma hdr_heap_Header_Set_last:
  "hdr_heap w = xs @ [m] \<Longrightarrow> hdr_heap (Header_Set w (length xs) k v) = xs @ [m(k \<mapsto> [v])]"
  by (simp add: Header_Set_def)

lemma Header_Get_last:
  "hdr_heap w = xs @ [m] \<Longrightarrow> Header_Get w (length xs) k = map_Get m k"
  by (simp add: Header_Get_def)

lemma valid_ref_ext:
  "valid_ref w r \<Longrightarrow> hdr_heap w' = hdr_heap w @ ys \<Longrightarrow> valid_ref w' r \<and> hdr_at w' r = hdr_at w r"
  by (auto simp: valid_ref_def hdr_at_def nth_append split: option.splits)

lemma merged_ext:
  "merged w' r1 r2 M \<Longrightarrow> hdr_heap w' = hdr_heap w @ ys \<Longrightarrow> merged w r1 r2 M"
  using valid_ref_ext[of w r1 w' ys] valid_ref_ext[of w r2 w' ys]
  by (simp add: merged_def)

lemma finish_headers_Authorization:
  "finish_headers c auth M ''Authorization'' = Some [auth]"
  by (simp add: finish_headers_def Let_def)

subsection \<open>The parts of \<^verbatim>\<open>doRequest\<close>\<close>

lemma hash_Sum_written:
  "hash_Sum env (if P then hash_Write (hash_Write (hmac_New k) m) b else hash_Write (hmac_New k) m)
     = hmac_sha512 env k (m @ (if P then b else []))"
  by (simp add: hash_Sum_def hash_Write_def hmac_New_def)

lemma request_body_cases:
  "request_body env method body = Ok (bodyBytes, reqBody) \<Longrightarrow>
     (if method = ''POST'' \<or> method = ''PUT'' then reqBody = Some (Reader bodyBytes None)
      else bodyBytes = [] \<and> reqBody = None)"
  by (auto simp: request_body_def bytes_NewReader_def
      split: if_splits body.splits sum.splits option.splits result.splits)

lemma sign_request_effect:
  fixes w :: "('ctx, 'hc) world" and env :: "('v, 'ctx, 'hc) env"
  shows "\<exists>M. sign_request env w c method query hdrs bodyBytes now req =
           (req\<lparr>URL := (URL req)\<lparr>RawQuery := url_Values_Encode env (url_Values query)\<rparr>,
                 Header := length (hdr_heap w)\<rparr>,
            w\<lparr>hdr_heap := hdr_heap w @
               [finish_headers c
                  (Authorization_Sprintf (apiKey c)
                     (hex_EncodeToString (hmac_sha512 env (apiSecret c)
                        (Method req @ Path (URL req) @ fmt_Sprint now
                           @ (if method = ''POST'' \<or> method = ''PUT'' then bodyBytes else []))))
                     now) M]\<rparr>)
         \<and> merged w (headers c) hdrs M"
proof -
  let ?n = "length (hdr_heap w)"
  let ?auth = "Authorization_Sprintf (apiKey c)
                 (hex_EncodeToString (hmac_sha512 env (apiSecret c)
                    (Method req @ Path (URL req) @ fmt_Sprint now
                       @ (if method = ''POST'' \<or> method = ''PUT'' then bodyBytes else []))))
                 now"
  define w1 where "w1 = w\<lparr>hdr_heap := hdr_heap w @ [Map.empty]\<rparr>"
  define w2 where "w2 = range_assign w1 ?n (headers c)"
  define w3 where "w3 = range_assign w2 ?n hdrs"
  define w4 where "w4 = Header_Set w3 ?n ''Authorization'' ?auth"
  define w5 where "w5 = (if userAgent c \<noteq> '''' then Header_Set w4 ?n ''User-Agent'' (userAgent c) else w4)"
  define w6 where "w6 = (if Header_Get w5 ?n ''Content-Type'' = ''''
               then Header_Set w5 ?n ''Content-Type'' ''application/json'' else w5)"
  have eq: "sign_request env w c method query hdrs bodyBytes now req =
         (req\<lparr>URL := (URL req)\<lparr>RawQuery := url_Values_Encode env (url_Values query)\<rparr>,
               Header := ?n\<rparr>, w6)"
    unfolding sign_request_def make_Header_def w6_def w5_def w4_def w3_def w2_def w1_def
    by (simp add: Let_def hash_Sum_written split del: if_split cong del: if_weak_cong)
  have h1: "hdr_heap w1 = hdr_heap w @ [Map.empty]" by (simp add: w1_def)
  from hdr_heap_range_assign_fresh[OF h1, of "headers c"]
  obtain M1 where h2: "hdr_heap w2 = hdr_heap w @ [M1]"
    and m1: "valid_ref w (headers c) \<longrightarrow> M1 = hdr_at w (headers c)"
    unfolding w2_def by (auto simp: valid_ref_def hdr_at_def split: option.splits)
  from hdr_heap_range_assign_fresh[OF h2, of hdrs]
  obtain M2 where h3: "hdr_heap w3 = hdr_heap w @ [M2]"
    and m2: "valid_ref w hdrs \<longrightarrow> M2 = M1 ++ hdr_at w hdrs"
    unfolding w3_def by (auto simp: valid_ref_def hdr_at_def split: option.splits)
  have h4: "hdr_heap w4 = hdr_heap w @ [M2(''Authorization'' \<mapsto> [?auth])]"
    unfolding w4_def by (rule hdr_heap_Header_Set_last[OF h3])
  have h5: "hdr_heap w5 = hdr_heap w @
      [if userAgent c \<noteq> ''''
       then (M2(''Authorization'' \<mapsto> [?auth]))(''User-Agent'' \<mapsto> [userAgent c])
       else M2(''Authorization'' \<mapsto> [?auth])]"
    unfolding w5_def using hdr_heap_Header_Set_last[OF h4] h4 by simp
  have h6: "hdr_heap w6 = hdr_heap w @ [finish_headers c ?auth M2]"
    unfolding w6_def finish_headers_def Let_def
    using hdr_heap_Header_Set_last[OF h5] h5 Header_Get_last[OF h5] by simp
  have others: "client w6 = client w" "hc_heap w6 = hc_heap w" "sent w6 = sent w"
    "log_out w6 = log_out w" "unix_clock w6 = unix_clock w" "unix_reads w6 = unix_reads w"
    by (simp_all add: w6_def w5_def w4_def w3_def w2_def w1_def)
  have "w6 = w\<lparr>hdr_heap := hdr_heap w @ [finish_headers c ?auth M2]\<rparr>"
    using h6 others by (intro world.equality) simp_all
  moreover have "merged w (headers c) hdrs M2"
    using m1 m2 by (simp add: merged_def)
  ultimately show ?thesis using eq by blast
qed

lemma sign_request_eq:
  fixes w :: "('ctx, 'hc) world" and env :: "('v, 'ctx, 'hc) env"
  assumes "valid_ref w (headers c)" and "valid_ref w hdrs"
  shows "sign_request env w c method query hdrs bodyBytes now req =
           (req\<lparr>URL := (URL req)\<lparr>RawQuery := url_Values_Encode env (url_Values query)\<rparr>,
                 Header := length (hdr_heap w)\<rparr>,
            w\<lparr>hdr_heap := hdr_heap w @
               [finish_headers c
                  (Authorization_Sprintf (apiKey c)
                     (hex_EncodeToString (hmac_sha512 env (apiSecret c)
                        (Method req @ Path (URL req) @ fmt_Sprint now
                           @ (if method = ''POST'' \<or> method = ''PUT'' then bodyBytes else []))))
                     now)
                  (hdr_at w (headers c) ++ hdr_at w hdrs)]\<rparr>)"
  using sign_request_effect[of env w c "method" query hdrs bodyBytes now req] assms
  by (auto simp: merged_def)

lemma NewRequest_effect:
  "http_NewRequestWithContext env w ctx method url body =
     (if \<not> http_validMethod env (if method = '''' then ''GET'' else method)
      then (Err (errors_New ''net/http: invalid method''), w)
      else case ctx of
        None \<Rightarrow> (Err (errors_New ''net/http: nil Context''), w)
      | Some cx \<Rightarrow>
          (case url_Parse env url of
             Inl err \<Rightarrow> (Err err, w)
           | Inr u \<Rightarrow>
               (Ok \<lparr>Ctx = cx, Method = (if method = '''' then ''GET'' else method), URL = u,
                     Header = length (hdr_heap w), ReqBody = body\<rparr>,
                w\<lparr>hdr_heap := hdr_heap w @ [Map.empty]\<rparr>)))"
  by (simp add: http_NewRequestWithContext_def make_Header_def Let_def split: option.split sum.split)
lemma build_request_cases:
  fixes w :: "('ctx, 'hc) world" and env :: "('v, 'ctx, 'hc) env"
  obtains (fail) e where
      "build_request env w c ctx method endpoint query hdrs bodyBytes reqBody
         = (Err e, w\<lparr>unix_reads := Suc (unix_reads w)\<rparr>)"
  | (ok) cx u M where
      "ctx = Some cx" "url_Parse env (baseUrl c @ endpoint) = Inr u"
      "merged w (headers c) hdrs M"
      "build_request env w c ctx method endpoint query hdrs bodyBytes reqBody
         = (Ok \<lparr>Ctx = cx, Method = (if method = '''' then ''GET'' else method),
                 URL = u\<lparr>RawQuery := url_Values_Encode env (url_Values query)\<rparr>,
                 Header = Suc (length (hdr_heap w)), ReqBody = reqBody\<rparr>,
            w\<lparr>unix_reads := Suc (unix_reads w),
              hdr_heap := hdr_heap w @ [Map.empty,
                finish_headers c
                  (Authorization_Sprintf (apiKey c)
                     (hex_EncodeToString (hmac_sha512 env (apiSecret c)
                        ((if method = '''' then ''GET'' else method) @ Path u
                           @ fmt_Sprint (unix_clock w (unix_reads w))
                           @ (if method = ''POST'' \<or> method = ''PUT'' then bodyBytes else []))))
                     (unix_clock w (unix_reads w))) M]\<rparr>)"
proof -
  let ?w0 = "w\<lparr>unix_reads := Suc (unix_reads w)\<rparr>"
  let ?now = "unix_clock w (unix_reads w)"
  let ?m = "if method = '''' then ''GET'' else method"
  have br: "build_request env w c ctx method endpoint query hdrs bodyBytes reqBody =
     (case http_NewRequestWithContext env ?w0 ctx method (baseUrl c @ endpoint) reqBody of
        (Err err, w) \<Rightarrow> (Err (fmt_Errorf ''ZeroGate request creation failed: '' err), w)
      | (Panic, w) \<Rightarrow> (Panic, w)
      | (Ok req, w) \<Rightarrow>
          (let (req, w) = sign_request env w c method query hdrs bodyBytes ?now req
           in (Ok req, w)))"
    by (simp add: build_request_def time_Now_Unix_def)
  show thesis
  proof (cases "http_validMethod env ?m")
    case False
    then show thesis using fail br by (simp add: NewRequest_effect)
  next
    case vm: True
    show thesis
    proof (cases ctx)
      case None
      then show thesis using fail br vm by (simp add: NewRequest_effect)
    next
      case (Some cx)
      show thesis
      proof (cases "url_Parse env (baseUrl c @ endpoint)")
        case (Inl err)
        then show thesis using fail br vm Some by (simp add: NewRequest_effect)
      next
        case (Inr u)
        let ?req = "\<lparr>Ctx = cx, Method = ?m, URL = u, Header = length (hdr_heap w), ReqBody = reqBody\<rparr>"
        let ?w1 = "?w0\<lparr>hdr_heap := hdr_heap w @ [Map.empty]\<rparr>"
        have nr: "http_NewRequestWithContext env ?w0 ctx method (baseUrl c @ endpoint) reqBody = (Ok ?req, ?w1)"
          using vm Some Inr by (simp add: NewRequest_effect)
        from sign_request_effect[of env ?w1 c "method" query hdrs bodyBytes ?now ?req]
        obtain M where sr: "sign_request env ?w1 c method query hdrs bodyBytes ?now ?req =
           (?req\<lparr>URL := (URL ?req)\<lparr>RawQuery := url_Values_Encode env (url_Values query)\<rparr>,
                 Header := length (hdr_heap ?w1)\<rparr>,
            ?w1\<lparr>hdr_heap := hdr_heap ?w1 @
               [finish_headers c
                  (Authorization_Sprintf (apiKey c)
                     (hex_EncodeToString (hmac_sha512 env (apiSecret c)
                        (Method ?req @ Path (URL ?req) @ fmt_Sprint ?now
                           @ (if method = http_MethodPost \<or> method = http_MethodPut
                              then bodyBytes else [])))) ?now) M]\<rparr>)"
          and mg: "merged ?w1 (headers c) hdrs M"
          by blast
        have mg': "merged w (headers c) hdrs M"
          using merged_ext[OF mg, of w "[Map.empty]"] by simp
        show thesis
          using ok[OF Some Inr mg'] br nr sr
          by simp
      qed
    qed
  qed
qed

lemma dump_and_exchange_cases:
  obtains (stop) r where "dump_and_exchange env w c req = (r, w)" "\<forall>x. r \<noteq> Ok x"
  | (go) lg where "dump_and_exchange env w c req = exchange env (w\<lparr>log_out := log_out w @ lg\<rparr>) c req"
      "debug c \<or> lg = []"
proof (cases "debug c")
  case False
  then have "dump_and_exchange env w c req = exchange env (w\<lparr>log_out := log_out w @ []\<rparr>) c req"
    by (simp add: dump_and_exchange_def)
  then show thesis by (rule go) simp
next
  case True
  show thesis
  proof (cases "httputil_DumpRequestOut env req (hdr_heap w ! Header req)")
    case (Inl err)
    then show thesis using True stop[of "Err err"] by (simp add: dump_and_exchange_def)
  next
    case (Inr dump)
    show thesis
    proof (cases "redact env [apiKey c, apiSecret c] dump")
      case None
      then show thesis using True Inr stop[of Panic] by (simp add: dump_and_exchange_def)
    next
      case (Some d)
      then have "dump_and_exchange env w c req = exchange env (w\<lparr>log_out := log_out w @ [CHR 0x0A # d]\<rparr>) c req"
        using True Inr by (simp add: dump_and_exchange_def)
      then show thesis by (rule go) (simp add: True)
    qed
  qed
qed

lemma exchange_frame:
  "client (snd (exchange env w c req)) = client w \<and>
   hdr_heap (snd (exchange env w c req)) = hdr_heap w \<and>
   unix_reads (snd (exchange env w c req)) = unix_reads w \<and>
   unix_clock (snd (exchange env w c req)) = unix_clock w \<and>
   take (length (hc_heap w)) (hc_heap (snd (exchange env w c req))) = hc_heap w"
  by (simp add: exchange_def getClient_def Let_def
      split: option.split prod.split sum.split result.split)

lemma exchange_sent:
  "sent (snd (exchange env w c req)) =
     (if getClient w = None then sent w else sent w @ [(req, hdr_heap w ! Header req)])"
  by (simp add: exchange_def getClient_def Let_def
      split: option.split prod.split sum.split result.split)

lemma exchange_result:
  assumes "httpClient (client w) = Some a" and "a < length (hc_heap w)"
    and "fst (http_Client_Do env (hc_heap w ! a) req (hdr_heap w ! Header req)) = Inr resp"
    and "debug c \<longrightarrow> (\<exists>dump. httputil_DumpResponse env resp = Inr dump)"
    and "io_ReadAll (RespBody resp) = Inr respBody"
  shows "fst (exchange env w c req) = response_result env resp respBody"
  using assms
  by (auto simp: exchange_def getClient_def Let_def split: prod.split)


lemma doRequest_cases:
  fixes w :: "('ctx, 'hc) world" and env :: "('v, 'ctx, 'hc) env"
  obtains (stop) r w' where
      "doRequest env w ctx method endpoint query body hdrs = (r, w')"
      "\<forall>x. r \<noteq> Ok x" "sent w' = sent w" "client w' = client w" "hc_heap w' = hc_heap w"
      "log_out w' = log_out w" "take (length (hdr_heap w)) (hdr_heap w') = hdr_heap w"
      "unix_reads w' = (case request_body env method body of
                           Ok p \<Rightarrow> Suc (unix_reads w) | Err e \<Rightarrow> unix_reads w
                         | Panic \<Rightarrow> unix_reads w)"
  | (go) bodyBytes reqBody cx u M lg req H w1 where
      "request_body env method body = Ok (bodyBytes, reqBody)"
      "ctx = Some cx" "url_Parse env (baseUrl (client w) @ endpoint) = Inr u"
      "merged w (headers (client w)) hdrs M"
      "req = \<lparr>Ctx = cx, Method = (if method = '''' then ''GET'' else method),
                 URL = u\<lparr>RawQuery := url_Values_Encode env (url_Values query)\<rparr>,
                 Header = Suc (length (hdr_heap w)), ReqBody = reqBody\<rparr>"
      "H = finish_headers (client w)
                  (Authorization_Sprintf (apiKey (client w))
                     (hex_EncodeToString (hmac_sha512 env (apiSecret (client w))
                        ((if method = '''' then ''GET'' else method) @ Path u
                           @ fmt_Sprint (unix_clock w (unix_reads w))
                           @ (if method = ''POST'' \<or> method = ''PUT'' then bodyBytes else []))))
                     (unix_clock w (unix_reads w))) M"
      "w1 = w\<lparr>unix_reads := Suc (unix_reads w), hdr_heap := hdr_heap w @ [Map.empty, H],
               log_out := log_out w @ lg\<rparr>"
      "debug (client w) \<or> lg = []"
      "doRequest env w ctx method endpoint query body hdrs = exchange env w1 (client w) req"
proof (cases "request_body env method body")
  case (Err e)
  then have "doRequest env w ctx method endpoint query body hdrs = (Err e, w)"
    by (simp add: doRequest_def)
  then show thesis by (rule stop) (simp_all add: Err)
next
  case Panic
  then have "doRequest env w ctx method endpoint query body hdrs = (Panic, w)"
    by (simp add: doRequest_def)
  then show thesis by (rule stop) (simp_all add: Panic)
next
  case (Ok p)
  obtain bodyBytes reqBody where p: "p = (bodyBytes, reqBody)" by (cases p)
  have dr: "doRequest env w ctx method endpoint query body hdrs =
     (case build_request env w (client w) ctx method endpoint query hdrs bodyBytes reqBody of
             (Err err, w') \<Rightarrow> (Err err, w')
           | (Panic, w') \<Rightarrow> (Panic, w')
           | (Ok req, w') \<Rightarrow> dump_and_exchange env w' (client w) req)"
    using Ok p by (simp add: doRequest_def Let_def)
  show thesis
  proof (cases rule: build_request_cases[of env w "client w" ctx "method" endpoint query hdrs bodyBytes reqBody])
    case (fail e)
    then have "doRequest env w ctx method endpoint query body hdrs
                 = (Err e, w\<lparr>unix_reads := Suc (unix_reads w)\<rparr>)"
      using dr by simp
    then show thesis by (rule stop) (simp_all add: Ok)
  next
    case (ok cx u M)
    define req where "req = \<lparr>Ctx = cx, Method = (if method = '''' then ''GET'' else method),
                 URL = u\<lparr>RawQuery := url_Values_Encode env (url_Values query)\<rparr>,
                 Header = Suc (length (hdr_heap w)), ReqBody = reqBody\<rparr>"
    define H where "H = finish_headers (client w)
                  (Authorization_Sprintf (apiKey (client w))
                     (hex_EncodeToString (hmac_sha512 env (apiSecret (client w))
                        ((if method = '''' then ''GET'' else method) @ Path u
                           @ fmt_Sprint (unix_clock w (unix_reads w))
                           @ (if method = ''POST'' \<or> method = ''PUT'' then bodyBytes else []))))
                     (unix_clock w (unix_reads w))) M"
    define w0 where "w0 = w\<lparr>unix_reads := Suc (unix_reads w), hdr_heap := hdr_heap w @ [Map.empty, H]\<rparr>"
    have dr': "doRequest env w ctx method endpoint query body hdrs = dump_and_exchange env w0 (client w) req"
      using dr ok(4) by (simp add: req_def H_def w0_def)
    show thesis
    proof (cases rule: dump_and_exchange_cases[of env w0 "client w" req])
      case (stop r)
      have "doRequest env w ctx method endpoint query body hdrs = (r, w0)"
        using dr' stop(1) by simp
      then show thesis
        using stop(2) by (rule that(1)) (simp_all add: w0_def Ok)
    next
      case (go lg)
      define w1 where "w1 = w\<lparr>unix_reads := Suc (unix_reads w), hdr_heap := hdr_heap w @ [Map.empty, H],
               log_out := log_out w @ lg\<rparr>"
      have w1: "w0\<lparr>log_out := log_out w0 @ lg\<rparr> = w1"
        by (simp add: w0_def w1_def)
      have lg: "debug (client w) \<or> lg = []" using go(2) .
      have "doRequest env w ctx method endpoint query body hdrs = exchange env w1 (client w) req"
        using dr' go(1) w1 by simp
      with Ok p ok(1,2,3) req_def H_def w1_def lg show thesis
        by (intro that(2)[of bodyBytes reqBody cx u M req H w1 lg]) simp_all
    qed
  qed
qed

lemma doRequest_sent:
  fixes w :: "('ctx, 'hc) world" and env :: "('v, 'ctx, 'hc) env"
  assumes "sent (snd (doRequest env w ctx method endpoint query body hdrs)) = sent w @ [(req, H)]"
  obtains bodyBytes reqBody cx u M lg w1 a where
      "request_body env method body = Ok (bodyBytes, reqBody)"
      "ctx = Some cx" "url_Parse env (baseUrl (client w) @ endpoint) = Inr u"
      "merged w (headers (client w)) hdrs M"
      "req = \<lparr>Ctx = cx, Method = (if method = '''' then ''GET'' else method),
                 URL = u\<lparr>RawQuery := url_Values_Encode env (url_Values query)\<rparr>,
                 Header = Suc (length (hdr_heap w)), ReqBody = reqBody\<rparr>"
      "H = finish_headers (client w)
                  (Authorization_Sprintf (apiKey (client w))
                     (hex_EncodeToString (hmac_sha512 env (apiSecret (client w))
                        ((if method = '''' then ''GET'' else method) @ Path u
                           @ fmt_Sprint (unix_clock w (unix_reads w))
                           @ (if method = ''POST'' \<or> method = ''PUT'' then bodyBytes else []))))
                     (unix_clock w (unix_reads w))) M"
      "w1 = w\<lparr>unix_reads := Suc (unix_reads w), hdr_heap := hdr_heap w @ [Map.empty, H],
               log_out := log_out w @ lg\<rparr>"
      "debug (client w) \<or> lg = []"
      "doRequest env w ctx method endpoint query body hdrs = exchange env w1 (client w) req"
      "httpClient (client w) = Some a" "a < length (hc_heap w)"
proof (cases rule: doRequest_cases[of env w ctx "method" endpoint query body hdrs])
  case (stop r w')
  then show thesis using assms by simp
next
  case (go bodyBytes reqBody cx u M lg req' H' w1)
  have s1: "sent w1 = sent w" "hdr_heap w1 ! Header req' = H'" "client w1 = client w"
    "hc_heap w1 = hc_heap w"
    by (simp_all add: go(5,7) nth_append)
  have "sent (snd (exchange env w1 (client w) req')) = sent w @ [(req, H)]"
    using assms go(9) by simp
  then have g: "getClient w1 \<noteq> None" and r: "req = req'" and h: "H = H'"
    using s1 by (simp_all add: exchange_sent split: if_splits)
  from g obtain a where a: "httpClient (client w) = Some a" "a < length (hc_heap w)"
    using s1 by (auto simp: getClient_def split: option.splits if_splits)
  show thesis
    by (rule that[of bodyBytes reqBody cx u M w1 lg a]) (use go r h a in simp_all)
qed


subsection \<open>Running the test double\<close>

lemma build_request_eq:
  fixes w :: "('ctx, 'hc) world" and env :: "('v, 'ctx, 'hc) env"
  assumes "valid_ref w (headers c)" and "valid_ref w hdrs"
  shows "build_request env w c ctx method endpoint query hdrs bodyBytes reqBody =
     (if \<not> http_validMethod env (if method = '''' then ''GET'' else method)
      then (Err (fmt_Errorf ''ZeroGate request creation failed: ''
                   (errors_New ''net/http: invalid method'')),
            w\<lparr>unix_reads := Suc (unix_reads w)\<rparr>)
      else case ctx of
        None \<Rightarrow> (Err (fmt_Errorf ''ZeroGate request creation failed: ''
                         (errors_New ''net/http: nil Context'')),
                 w\<lparr>unix_reads := Suc (unix_reads w)\<rparr>)
      | Some cx \<Rightarrow>
         (case url_Parse env (baseUrl c @ endpoint) of
            Inl err \<Rightarrow> (Err (fmt_Errorf ''ZeroGate request creation failed: '' err),
                        w\<lparr>unix_reads := Suc (unix_reads w)\<rparr>)
          | Inr u \<Rightarrow>
             (Ok \<lparr>Ctx = cx, Method = (if method = '''' then ''GET'' else method),
                 URL = u\<lparr>RawQuery := url_Values_Encode env (url_Values query)\<rparr>,
                 Header = Suc (length (hdr_heap w)), ReqBody = reqBody\<rparr>,
              w\<lparr>unix_reads := Suc (unix_reads w),
                hdr_heap := hdr_heap w @ [Map.empty,
                  finish_headers c
                    (Authorization_Sprintf (apiKey c)
                       (hex_EncodeToString (hmac_sha512 env (apiSecret c)
                          ((if method = '''' then ''GET'' else method) @ Path u
                             @ fmt_Sprint (unix_clock w (unix_reads w))
                             @ (if method = ''POST'' \<or> method = ''PUT'' then bodyBytes else []))))
                       (unix_clock w (unix_reads w)))
                    (hdr_at w (headers c) ++ hdr_at w hdrs)]\<rparr>)))"
proof -
  let ?w0 = "w\<lparr>unix_reads := Suc (unix_reads w)\<rparr>"
  let ?w1 = "?w0\<lparr>hdr_heap := hdr_heap w @ [Map.empty]\<rparr>"
  have v: "valid_ref ?w1 (headers c)" "valid_ref ?w1 hdrs"
     "hdr_at ?w1 (headers c) = hdr_at w (headers c)" "hdr_at ?w1 hdrs = hdr_at w hdrs"
    using valid_ref_ext[OF assms(1), of ?w1 "[Map.empty]"]
      valid_ref_ext[OF assms(2), of ?w1 "[Map.empty]"]
    by simp_all
  show ?thesis
    by (simp add: build_request_def time_Now_Unix_def NewRequest_effect
          sign_request_eq[OF v(1,2)] v(3,4)
        split: option.split sum.split)
qed

lemma fmt_Sprint_test: "fmt_Sprint 1700000000 = ''1700000000''"
  by (simp add: fmt_Sprint_def digits.simps)

lemmas test_run = doRequest_def Let_def request_body_def bytes_NewReader_def build_request_eq
  valid_ref_def hdr_at_def dump_and_exchange_def exchange_def getClient_def response_result_def
  finish_headers_def map_Get_def Authorization_Sprintf_def fmt_Sprint_test
  hex_EncodeToString_def hextable_def
  test_env_def test_client_def test_world_def

lemma test_post_sent:
  \<open>sent (snd (doRequest test_env test_world (Some ()) ''POST'' ''/post'' Map.empty
            (Body_value ''{"name":"Test"}'') None))
     = sent test_world @ [(post_request, post_header)]\<close>
  by (simp add: test_run post_request_def post_header_def)

subsection \<open>The request handed to the transport\<close>

lemma sent_Authorization:
  fixes w :: "('ctx, 'hc) world" and env :: "('v, 'ctx, 'hc) env"
  assumes "sent (snd (doRequest env w ctx method endpoint query body hdrs)) = sent w @ [(req, H)]"
  shows "H ''Authorization'' =
           Some [Authorization_Sprintf (apiKey (client w))
                  (hex_EncodeToString (hmac_sha512 env (apiSecret (client w))
                     (Method req @ Path (URL req) @ fmt_Sprint (unix_clock w (unix_reads w))
                        @ (if Method req = ''POST'' \<or> Method req = ''PUT''
                           then (case ReqBody req of None \<Rightarrow> [] | Some r \<Rightarrow> content r)
                           else []))))
                  (unix_clock w (unix_reads w))]"
proof -
  from assms obtain bodyBytes reqBody cx u M where
      rb: "request_body env method body = Ok (bodyBytes, reqBody)"
    and req: "req = \<lparr>Ctx = cx, Method = (if method = '''' then ''GET'' else method),
                 URL = u\<lparr>RawQuery := url_Values_Encode env (url_Values query)\<rparr>,
                 Header = Suc (length (hdr_heap w)), ReqBody = reqBody\<rparr>"
    and H: "H = finish_headers (client w)
                  (Authorization_Sprintf (apiKey (client w))
                     (hex_EncodeToString (hmac_sha512 env (apiSecret (client w))
                        ((if method = '''' then ''GET'' else method) @ Path u
                           @ fmt_Sprint (unix_clock w (unix_reads w))
                           @ (if method = ''POST'' \<or> method = ''PUT'' then bodyBytes else []))))
                     (unix_clock w (unix_reads w))) M"
    by (rule doRequest_sent)
  show ?thesis
    using request_body_cases[OF rb]
    by (auto simp: H req finish_headers_Authorization split: if_splits)
qed

lemma hex_digits:
  "set (hex_EncodeToString src) \<subseteq> set ''0123456789abcdef''"
proof -
  have tab: "k < 16 \<Longrightarrow> hextable ! k \<in> set hextable" for k
    by (rule nth_mem) (simp add: hextable_def)
  have hi: "of_char v div 16 < (16::nat)" for v :: char
  proof -
    have "of_char v < (16 * 16 :: nat)" using nat_of_char_less_256[of v] by simp
    then show ?thesis by (simp only: less_mult_imp_div_less)
  qed
  have lo: "of_char v mod 16 < (16::nat)" for v :: char by simp
  have "set (hex_EncodeToString src) \<subseteq> set hextable"
    unfolding hex_EncodeToString_def using tab[OF hi] tab[OF lo] by auto
  then show ?thesis by (simp only: hextable_def)
qed

lemma sent_clock:
  fixes w :: "('ctx, 'hc) world" and env :: "('v, 'ctx, 'hc) env"
  assumes "sent (snd (doRequest env w ctx method endpoint query body hdrs)) = sent w @ [(req, H)]"
  shows "unix_reads (snd (doRequest env w ctx method endpoint query body hdrs)) = Suc (unix_reads w)"
proof -
  from assms obtain lg w1 where
      w1: "w1 = w\<lparr>unix_reads := Suc (unix_reads w), hdr_heap := hdr_heap w @ [Map.empty, H],
               log_out := log_out w @ lg\<rparr>"
    and dr: "doRequest env w ctx method endpoint query body hdrs = exchange env w1 (client w) req"
    by (rule doRequest_sent)
  show ?thesis using exchange_frame[of env w1 "client w" req] by (simp add: dr w1)
qed

lemma sent_body:
  fixes w :: "('ctx, 'hc) world" and env :: "('v, 'ctx, 'hc) env"
  assumes "sent (snd (doRequest env w ctx method endpoint query body hdrs)) = sent w @ [(req, H)]"
  shows "\<exists>bodyBytes. request_body env method body = Ok (bodyBytes, ReqBody req)
           \<and> Method req = (if method = '''' then ''GET'' else method)"
proof -
  from assms obtain bodyBytes reqBody cx u where
      rb: "request_body env method body = Ok (bodyBytes, reqBody)"
    and req: "req = \<lparr>Ctx = cx, Method = (if method = '''' then ''GET'' else method),
                 URL = u\<lparr>RawQuery := url_Values_Encode env (url_Values query)\<rparr>,
                 Header = Suc (length (hdr_heap w)), ReqBody = reqBody\<rparr>"
    by (rule doRequest_sent)
  show ?thesis using rb by (simp add: req)
qed

lemma request_body_nil:
  "method = ''POST'' \<or> method = ''PUT'' \<Longrightarrow>
     request_body env method Body_nil = Ok (''{}'', Some (Reader ''{}'' None))"
  by (auto simp: request_body_def bytes_NewReader_def)

lemma request_body_forms:
  assumes "method = ''POST'' \<or> method = ''PUT''"
    and "request_body env method body = Ok (bodyBytes, reqBody)"
  shows "case body of
           Body_nil \<Rightarrow> bodyBytes = ''{}''
         | Body_bytes b \<Rightarrow> bodyBytes = b
         | Body_Reader r \<Rightarrow> io_ReadAll r = Inr bodyBytes
         | Body_value v \<Rightarrow> json_Marshal env v = Inr bodyBytes"
  using assms
  by (auto simp: request_body_def bytes_NewReader_def
      split: body.splits sum.splits if_splits)

lemma clock_reads:
  fixes w :: "('ctx, 'hc) world" and env :: "('v, 'ctx, 'hc) env"
  shows "unix_reads (snd (doRequest env w ctx method endpoint query body hdrs)) =
           (case request_body env method body of
              Ok p \<Rightarrow> Suc (unix_reads w) | Err e \<Rightarrow> unix_reads w | Panic \<Rightarrow> unix_reads w)"
proof (cases rule: doRequest_cases[of env w ctx "method" endpoint query body hdrs])
  case (stop r w')
  then show ?thesis by simp
next
  case (go bodyBytes reqBody cx u M lg req H w1)
  show ?thesis using exchange_frame[of env w1 "client w" req] by (simp add: go(1,7,9))
qed

lemma doRequest_frame:
  fixes w :: "('ctx, 'hc) world" and env :: "('v, 'ctx, 'hc) env"
  shows "client (snd (doRequest env w ctx method endpoint query body hdrs)) = client w
       \<and> take (length (hdr_heap w)) (hdr_heap (snd (doRequest env w ctx method endpoint query body hdrs)))
             = hdr_heap w
       \<and> take (length (hc_heap w)) (hc_heap (snd (doRequest env w ctx method endpoint query body hdrs)))
             = hc_heap w"
proof (cases rule: doRequest_cases[of env w ctx "method" endpoint query body hdrs])
  case (stop r w')
  then show ?thesis by simp
next
  case (go bodyBytes reqBody cx u M lg req H w1)
  show ?thesis using exchange_frame[of env w1 "client w" req] by (simp add: go(7,9))
qed

lemma take_prefix_nth:
  "take (length xs) ys = xs \<Longrightarrow> a < length xs \<Longrightarrow> ys ! a = xs ! a"
  by (metis nth_take)

lemma take_prefix_length:
  "take (length xs) ys = xs \<Longrightarrow> length xs \<le> length ys"
  by (metis length_take min.cobounded2 min_def nat_le_linear)

lemma sent_headers:
  fixes w :: "('ctx, 'hc) world" and env :: "('v, 'ctx, 'hc) env"
  assumes "sent (snd (doRequest env w ctx method endpoint query body hdrs)) = sent w @ [(req, H)]"
    and "valid_ref w (headers (client w))" and "valid_ref w hdrs"
  shows "\<exists>auth. H = finish_headers (client w) auth (hdr_at w (headers (client w)) ++ hdr_at w hdrs)"
proof -
  from assms(1) obtain M auth where
      "merged w (headers (client w)) hdrs M" and "H = finish_headers (client w) auth M"
    by (rule doRequest_sent)
  then show ?thesis using assms(2,3) by (auto simp: merged_def)
qed

lemma sent_result:
  fixes w :: "('ctx, 'hc) world" and env :: "('v, 'ctx, 'hc) env"
  assumes "sent (snd (doRequest env w ctx method endpoint query body hdrs)) = sent w @ [(req, H)]"
    and "httpClient (client w) = Some a"
    and "fst (http_Client_Do env (hc_heap w ! a) req H) = Inr resp"
    and "debug (client w) \<longrightarrow> (\<exists>dump. httputil_DumpResponse env resp = Inr dump)"
    and "io_ReadAll (RespBody resp) = Inr respBody"
  shows "fst (doRequest env w ctx method endpoint query body hdrs) = response_result env resp respBody"
proof -
  from assms(1) obtain cx u reqBody lg w1 a' where
      req: "req = \<lparr>Ctx = cx, Method = (if method = '''' then ''GET'' else method),
                 URL = u\<lparr>RawQuery := url_Values_Encode env (url_Values query)\<rparr>,
                 Header = Suc (length (hdr_heap w)), ReqBody = reqBody\<rparr>"
    and w1: "w1 = w\<lparr>unix_reads := Suc (unix_reads w), hdr_heap := hdr_heap w @ [Map.empty, H],
               log_out := log_out w @ lg\<rparr>"
    and dr: "doRequest env w ctx method endpoint query body hdrs = exchange env w1 (client w) req"
    and a': "httpClient (client w) = Some a'" "a' < length (hc_heap w)"
    by (rule doRequest_sent)
  have a: "a < length (hc_heap w)" using a' assms(2) by simp
  have h: "hdr_heap w1 ! Header req = H" by (simp add: w1 req nth_append)
  have "fst (exchange env w1 (client w) req) = response_result env resp respBody"
    by (rule exchange_result[where a = a])
       (use assms(2-5) a h in \<open>simp_all add: w1\<close>)
  then show ?thesis by (simp add: dr)
qed

lemma test_get_sent:
  "sent (snd (doRequest test_env test_world (Some ()) ''GET'' ''/get'' Map.empty
            (Body_bytes ''ignored'') (Some 1)))
     = sent test_world @ [(get_request, get_header)]"
  by (simp add: test_run get_request_def get_header_def)

lemma test_put_sent:
  "sent (snd (doRequest test_env test_world (Some ()) ''PUT'' ''/put'' Map.empty Body_nil None))
     = sent test_world @ [(put_request, put_header)]"
  by (simp add: test_run put_request_def put_header_def)

lemma test_missing_sent:
  "sent (snd (doRequest test_env test_world (Some ()) ''GET'' ''/missing'' Map.empty Body_nil None))
     = sent test_world @ [(missing_request, missing_header)]"
  by (simp add: test_run missing_request_def missing_header_def)

lemma test_broken_sent:
  "sent (snd (doRequest test_env test_world (Some ()) ''GET'' ''/broken'' Map.empty Body_nil None))
     = sent test_world @ [(broken_request, broken_header)]"
  by (simp add: test_run broken_request_def broken_header_def)

section \<open>The claims\<close>

text \<open>
  In the theorems about a request, the hypothesis
  \<open>sent (snd (doRequest \<dots>)) = sent w @ [(req, H)]\<close> says that the call handed the
  request \<open>req\<close>, with the header map \<open>H\<close>, to the transport: a call that returns
  before that issues no request and sets no header.
\<close>



text \<open>
  C2, as the specification states it: every call to \<^verbatim>\<open>doRequest\<close> obtains the timestamp
  exactly once. It fails for a call that returns while the body is materialized, before
  line 180: a \<^verbatim>\<open>POST\<close> whose reader fails (lines 172 to 175) and a \<^verbatim>\<open>PUT\<close> of a value that
  \<^verbatim>\<open>json.Marshal\<close> rejects (lines 160 to 163) return the error and read no timestamp.
\<close>

theorem failed_body_takes_no_timestamp:
  \<open>unix_reads test_world = 0
   \<and> fst (doRequest test_env test_world (Some ()) ''POST'' ''/post'' Map.empty
            (Body_Reader (Reader ''{"name":'' (Some (errors_New ''unexpected EOF'')))) None)
       = Err (fmt_Errorf ''error reading body: '' (errors_New ''unexpected EOF''))
   \<and> unix_reads (snd (doRequest test_env test_world (Some ()) ''POST'' ''/post'' Map.empty
            (Body_Reader (Reader ''{"name":'' (Some (errors_New ''unexpected EOF'')))) None)) = 0
   \<and> fst (doRequest (test_env\<lparr>json_Marshal := (\<lambda>v. Inl (errors_New ''json: unsupported value''))\<rparr>)
            test_world (Some ()) ''PUT'' ''/put'' Map.empty (Body_value ''NaN'') None)
       = Err (fmt_Errorf ''error marshalling body to JSON: '' (errors_New ''json: unsupported value''))
   \<and> unix_reads (snd (doRequest (test_env\<lparr>json_Marshal := (\<lambda>v. Inl (errors_New ''json: unsupported value''))\<rparr>)
            test_world (Some ()) ''PUT'' ''/put'' Map.empty (Body_value ''NaN'') None)) = 0\<close>
  by (simp add: doRequest_def request_body_def test_world_def)

text \<open>
  C2, amended. A call obtains the timestamp exactly once, unless it returns while the
  body is materialized, and then it obtains none: this happens only for \<^verbatim>\<open>POST\<close> and
  \<^verbatim>\<open>PUT\<close>, when the body is a reader that fails or a value that \<^verbatim>\<open>json.Marshal\<close> rejects.
  In particular every call that issues a request obtains it exactly once, and the value
  of the \<^verbatim>\<open>Authorization\<close> header of the request is exactly
  \<^verbatim>\<open>APIKey=<key>, Signature=<signature>, Nonce=<timestamp>\<close>, with the timestamp, in
  decimal, that is also inside the signed message, and a signature made of the digits
  \<^verbatim>\<open>0\<close> to \<^verbatim>\<open>9\<close> and \<^verbatim>\<open>a\<close> to \<^verbatim>\<open>f\<close>.
\<close>

theorem timestamp_and_authorization_layout:
  fixes w :: "('ctx, 'hc) world" and env :: "('v, 'ctx, 'hc) env"
  shows "unix_reads (snd (doRequest env w ctx method endpoint query body hdrs)) =
           (if (method = ''POST'' \<or> method = ''PUT'')
               \<and> (case body of
                      Body_Reader r \<Rightarrow> isl (io_ReadAll r)
                    | Body_value v \<Rightarrow> isl (json_Marshal env v)
                    | Body_bytes b \<Rightarrow> False
                    | Body_nil \<Rightarrow> False)
            then unix_reads w else Suc (unix_reads w))
     \<and> (sent (snd (doRequest env w ctx method endpoint query body hdrs)) = sent w @ [(req, H)] \<longrightarrow>
          unix_reads (snd (doRequest env w ctx method endpoint query body hdrs)) = Suc (unix_reads w)
        \<and> (let now = unix_clock w (unix_reads w);
                 signature = hex_EncodeToString (hmac_sha512 env (apiSecret (client w))
                    (Method req @ Path (URL req) @ fmt_Sprint now
                       @ (if Method req = ''POST'' \<or> Method req = ''PUT''
                          then (case ReqBody req of None \<Rightarrow> [] | Some r \<Rightarrow> content r)
                          else [])))
             in H ''Authorization'' =
                  Some [''APIKey='' @ apiKey (client w) @ '', Signature='' @ signature
                          @ '', Nonce='' @ fmt_Sprint now]
                \<and> set signature \<subseteq> set ''0123456789abcdef''))"
proof -
  let ?n = "unix_reads (snd (doRequest env w ctx method endpoint query body hdrs))"
  have rb: "(\<exists>p. request_body env method body = Ok p) \<longleftrightarrow>
            \<not> ((method = ''POST'' \<or> method = ''PUT'')
               \<and> (case body of
                      Body_Reader r \<Rightarrow> isl (io_ReadAll r)
                    | Body_value v \<Rightarrow> isl (json_Marshal env v)
                    | Body_bytes b \<Rightarrow> False
                    | Body_nil \<Rightarrow> False))"
    by (auto simp: request_body_def bytes_NewReader_def
        split: body.splits sum.splits if_splits)
  have "?n = (if (method = ''POST'' \<or> method = ''PUT'')
               \<and> (case body of
                      Body_Reader r \<Rightarrow> isl (io_ReadAll r)
                    | Body_value v \<Rightarrow> isl (json_Marshal env v)
                    | Body_bytes b \<Rightarrow> False
                    | Body_nil \<Rightarrow> False)
            then unix_reads w else Suc (unix_reads w))"
    using clock_reads[of env w ctx "method" endpoint query body hdrs] rb
    by (cases "request_body env method body") auto
  then show ?thesis
    using sent_clock[of env w ctx "method" endpoint query body hdrs req H]
      sent_Authorization[of env w ctx "method" endpoint query body hdrs req H]
      hex_digits
    by (simp add: Let_def Authorization_Sprintf_def)
qed

theorem timestamp_and_authorization_layout_witness:
  \<open>sent (snd (doRequest test_env test_world (Some ()) ''POST'' ''/post'' Map.empty
            (Body_value ''{"name":"Test"}'') None))
     = sent test_world @ [(post_request, post_header)]
   \<and> unix_reads test_world = 0
   \<and> unix_reads (snd (doRequest test_env test_world (Some ()) ''POST'' ''/post'' Map.empty
            (Body_value ''{"name":"Test"}'') None)) = 1
   \<and> post_header ''Authorization'' =
       Some [''APIKey=key_5fbea669, Signature=316634663664623535376534504f53542f706f7374313730303030303030307b226e616d65223a2254657374227d, Nonce=1700000000'']\<close>
proof -
  have z: "unix_reads test_world = 0"
    by (simp add: test_world_def)
  note t = timestamp_and_authorization_layout[of test_env test_world "Some ()" "''POST''" "''/post''"
      Map.empty \<open>Body_value ''{"name":"Test"}''\<close> None post_request post_header]
  from t
  have n: \<open>unix_reads (snd (doRequest test_env test_world (Some ()) ''POST'' ''/post'' Map.empty
            (Body_value ''{"name":"Test"}'') None)) = 1\<close>
    by (simp add: z test_env_def)
  from t test_post_sent
  have \<open>post_header ''Authorization'' =
       Some [''APIKey=key_5fbea669, Signature=316634663664623535376534504f53542f706f7374313730303030303030307b226e616d65223a2254657374227d, Nonce=1700000000'']\<close>
    by (simp add: Let_def post_request_def test_world_def test_client_def test_env_def
        fmt_Sprint_test hex_EncodeToString_def hextable_def)
  then show ?thesis
    using test_post_sent z n by simp
qed

text \<open>
  C3. For every \<^verbatim>\<open>POST\<close> or \<^verbatim>\<open>PUT\<close> call that issues a request, whatever the body given
  (nil, bytes, a reader, a value to serialize), there is one sequence of bytes that is
  the result of materializing the body, the body of the request handed to the
  transport, and the bytes hashed after the method, the path and the timestamp. It is
  \<^verbatim>\<open>{}\<close> for a nil body, the bytes themselves for bytes, what the reader gives, and the
  JSON of a value.
\<close>

theorem signed_body_is_transmitted_body:
  fixes w :: "('ctx, 'hc) world" and env :: "('v, 'ctx, 'hc) env"
  assumes "method = ''POST'' \<or> method = ''PUT''"
    and "sent (snd (doRequest env w ctx method endpoint query body hdrs)) = sent w @ [(req, H)]"
  shows "\<exists>bodyBytes.
           request_body env method body = Ok (bodyBytes, Some (Reader bodyBytes None))
         \<and> ReqBody req = Some (Reader bodyBytes None)
         \<and> H ''Authorization'' =
             Some [Authorization_Sprintf (apiKey (client w))
                    (hex_EncodeToString (hmac_sha512 env (apiSecret (client w))
                       (method @ Path (URL req) @ fmt_Sprint (unix_clock w (unix_reads w))
                          @ bodyBytes)))
                    (unix_clock w (unix_reads w))]
         \<and> (case body of
               Body_nil \<Rightarrow> bodyBytes = ''{}''
             | Body_bytes b \<Rightarrow> bodyBytes = b
             | Body_Reader r \<Rightarrow> io_ReadAll r = Inr bodyBytes
             | Body_value v \<Rightarrow> json_Marshal env v = Inr bodyBytes)"
proof -
  from sent_body[OF assms(2)] obtain bodyBytes where
      rb: "request_body env method body = Ok (bodyBytes, ReqBody req)"
    and m: "Method req = (if method = '''' then ''GET'' else method)"
    by blast
  have b: "ReqBody req = Some (Reader bodyBytes None)"
    using request_body_cases[OF rb] assms(1) by auto
  have "H ''Authorization'' =
             Some [Authorization_Sprintf (apiKey (client w))
                    (hex_EncodeToString (hmac_sha512 env (apiSecret (client w))
                       (method @ Path (URL req) @ fmt_Sprint (unix_clock w (unix_reads w))
                          @ bodyBytes)))
                    (unix_clock w (unix_reads w))]"
    using sent_Authorization[OF assms(2)] assms(1) m b by auto
  then show ?thesis
    using rb b request_body_forms[OF assms(1) rb] by auto
qed

theorem signed_body_is_transmitted_body_witness:
  \<open>(''POST'' = ''POST'' \<or> ''POST'' = ''PUT'')
   \<and> sent (snd (doRequest test_env test_world (Some ()) ''POST'' ''/post'' Map.empty
            (Body_value ''{"name":"Test"}'') None))
     = sent test_world @ [(post_request, post_header)]
   \<and> request_body test_env ''POST'' (Body_value ''{"name":"Test"}'')
       = Ok (''{"name":"Test"}'', Some (Reader ''{"name":"Test"}'' None))
   \<and> ReqBody post_request = Some (Reader ''{"name":"Test"}'' None)
   \<and> post_header ''Authorization'' =
       Some [''APIKey=key_5fbea669, Signature=316634663664623535376534504f53542f706f7374313730303030303030307b226e616d65223a2254657374227d, Nonce=1700000000'']\<close>
proof -
  have m: "''POST'' = ''POST'' \<or> ''POST'' = ''PUT''" by simp
  from signed_body_is_transmitted_body[OF m test_post_sent]
  show ?thesis
    using test_post_sent
    by (auto simp: post_request_def test_world_def test_client_def test_env_def
          Authorization_Sprintf_def fmt_Sprint_test hex_EncodeToString_def hextable_def)
qed

text \<open>
  C4. The claim is that, with the debug flag set, the key and the secret are replaced by
  the marker in the dump of the request and in the dump of the response before either is
  logged. The code does so for the dump of the request and logs the dump of the response
  as it is: with the debug flag set and a server that echoes the \<^verbatim>\<open>Authorization\<close>
  header in the body of its response, the first message logged has the marker in place
  of the key and the second message contains the key.
\<close>

theorem debug_response_dump_keeps_api_key:
  \<open>debug (client debug_world) \<and> apiKey (client debug_world) = ''key_5fbea669''
   \<and> log_out (snd (doRequest test_env debug_world (Some ()) ''GET'' ''/get'' Map.empty Body_nil None))
      = [CHR 0x0A # ''GET /get HTTP/1.1 Authorization: APIKey=[**************], Signature=3166346636646235353765344745542f67657431373030303030303030, Nonce=1700000000'',
         CHR 0x0A # ''HTTP/1.1 200 OK {"success":true,"data":"APIKey=key_5fbea669, Signature=3166346636646235353765344745542f67657431373030303030303030, Nonce=1700000000"}'']
   \<and> sublist (apiKey (client debug_world))
        (last (log_out (snd (doRequest test_env debug_world (Some ()) ''GET'' ''/get'' Map.empty
                               Body_nil None))))\<close>
proof -
  have l: \<open>log_out (snd (doRequest test_env debug_world (Some ()) ''GET'' ''/get'' Map.empty Body_nil None))
      = [CHR 0x0A # ''GET /get HTTP/1.1 Authorization: APIKey=[**************], Signature=3166346636646235353765344745542f67657431373030303030303030, Nonce=1700000000'',
         CHR 0x0A # ''HTTP/1.1 200 OK {"success":true,"data":"APIKey=key_5fbea669, Signature=3166346636646235353765344745542f67657431373030303030303030, Nonce=1700000000"}'']\<close>
    by (simp add: test_run debug_world_def)
  have k: "apiKey (client debug_world) = ''key_5fbea669''" "debug (client debug_world)"
    by (simp_all add: debug_world_def test_world_def test_client_def)
  show ?thesis
    unfolding l k by (simp add: k sublist_code)
qed

text \<open>
  C5. When the exchange completes (the transport gave a response, its dump succeeded if
  the client debugs, and its body was read), the result of \<^verbatim>\<open>doRequest\<close> is: for a status
  code below 400, an \<^verbatim>\<open>APIResponse\<close> with the bytes of the body, the status line, the
  status code and the headers, and no error; for a status code of 400 or more, an
  \<^verbatim>\<open>Error\<close> with the decoded envelope and the status code when the body parses, and the
  error of the parser, wrapped, when it does not.
\<close>

theorem response_classification:
  fixes w :: "('ctx, 'hc) world" and env :: "('v, 'ctx, 'hc) env"
  assumes "sent (snd (doRequest env w ctx method endpoint query body hdrs)) = sent w @ [(req, H)]"
    and "httpClient (client w) = Some a"
    and "fst (http_Client_Do env (hc_heap w ! a) req H) = Inr resp"
    and "debug (client w) \<longrightarrow> (\<exists>dump. httputil_DumpResponse env resp = Inr dump)"
    and "io_ReadAll (RespBody resp) = Inr respBody"
  shows "fst (doRequest env w ctx method endpoint query body hdrs) =
     (if RespStatusCode resp < 400
      then Ok \<lparr>Body = respBody, Status = RespStatus resp,
               StatusCode = RespStatusCode resp, Headers = RespHeader resp\<rparr>
      else (case json_Unmarshal env respBody of
              Inr r \<Rightarrow> Err (Error_ptr \<lparr>Response = r, StatusCode = RespStatusCode resp\<rparr>)
            | Inl err \<Rightarrow> Err (fmt_Errorf ''failed to unmarshal response body: '' err)))"
  using sent_result[OF assms]
  by (simp add: response_result_def split: sum.split)

theorem response_classification_witness:
  \<open>(sent (snd (doRequest test_env test_world (Some ()) ''GET'' ''/missing'' Map.empty Body_nil None))
       = sent test_world @ [(missing_request, missing_header)]
    \<and> httpClient (client test_world) = Some 0
    \<and> fst (http_Client_Do test_env (hc_heap test_world ! 0) missing_request missing_header)
        = Inr not_found_response
    \<and> (\<exists>dump. httputil_DumpResponse test_env not_found_response = Inr dump)
    \<and> io_ReadAll (RespBody not_found_response)
        = Inr ''{"success":false,"error_code":404,"error_message":"not found"}''
    \<and> fst (doRequest test_env test_world (Some ()) ''GET'' ''/missing'' Map.empty Body_nil None)
        = Err (Error_ptr \<lparr>Response = \<lparr>ErrorCode = 404, ErrorMessage = ''not found'',
                                       Success = False\<rparr>, StatusCode = 404\<rparr>))
   \<and> (sent (snd (doRequest test_env test_world (Some ()) ''GET'' ''/broken'' Map.empty Body_nil None))
       = sent test_world @ [(broken_request, broken_header)]
    \<and> fst (http_Client_Do test_env (hc_heap test_world ! 0) broken_request broken_header)
        = Inr bad_gateway_response
    \<and> io_ReadAll (RespBody bad_gateway_response) = Inr ''<html>502</html>''
    \<and> fst (doRequest test_env test_world (Some ()) ''GET'' ''/broken'' Map.empty Body_nil None)
        = Err (fmt_Errorf ''failed to unmarshal response body: ''
                 (errors_New ''invalid character'')))
   \<and> (sent (snd (doRequest test_env test_world (Some ()) ''GET'' ''/get'' Map.empty
               (Body_bytes ''ignored'') (Some 1)))
       = sent test_world @ [(get_request, get_header)]
    \<and> fst (http_Client_Do test_env (hc_heap test_world ! 0) get_request get_header)
        = Inr echo_response
    \<and> fst (doRequest test_env test_world (Some ()) ''GET'' ''/get'' Map.empty
               (Body_bytes ''ignored'') (Some 1))
        = Ok \<lparr>Body = ''{"success":true,"data":"APIKey=key_5fbea669, Signature=3166346636646235353765344745542f67657431373030303030303030, Nonce=1700000000"}'',
              Status = ''200 OK'', StatusCode = 200, Headers = Map.empty\<rparr>)\<close>
proof -
  have c: "httpClient (client test_world) = Some 0"
    by (simp add: test_world_def test_client_def)
  have d1: "fst (http_Client_Do test_env (hc_heap test_world ! 0) missing_request missing_header)
        = Inr not_found_response"
    by (simp add: test_env_def missing_request_def not_found_response_def)
  have d2: "fst (http_Client_Do test_env (hc_heap test_world ! 0) get_request get_header)
        = Inr echo_response"
    by (simp add: test_env_def get_request_def get_header_def echo_response_def map_Get_def)
  have d3: "fst (http_Client_Do test_env (hc_heap test_world ! 0) broken_request broken_header)
        = Inr bad_gateway_response"
    by (simp add: test_env_def broken_request_def bad_gateway_response_def)
  have p1: "debug (client test_world) \<longrightarrow> (\<exists>dump. httputil_DumpResponse test_env not_found_response = Inr dump)"
    and p2: "debug (client test_world) \<longrightarrow> (\<exists>dump. httputil_DumpResponse test_env echo_response = Inr dump)"
    and p3: "debug (client test_world) \<longrightarrow> (\<exists>dump. httputil_DumpResponse test_env bad_gateway_response = Inr dump)"
    and p4: "\<exists>dump. httputil_DumpResponse test_env not_found_response = Inr dump"
    by (simp_all add: test_env_def)
  have r1: \<open>io_ReadAll (RespBody not_found_response)
        = Inr ''{"success":false,"error_code":404,"error_message":"not found"}''\<close>
    by (simp add: not_found_response_def)
  have r2: \<open>io_ReadAll (RespBody echo_response)
        = Inr ''{"success":true,"data":"APIKey=key_5fbea669, Signature=3166346636646235353765344745542f67657431373030303030303030, Nonce=1700000000"}''\<close>
    by (simp add: echo_response_def)
  have r3: "io_ReadAll (RespBody bad_gateway_response) = Inr ''<html>502</html>''"
    by (simp add: bad_gateway_response_def)
  from response_classification[OF test_missing_sent c d1 p1 r1]
  have e1: \<open>fst (doRequest test_env test_world (Some ()) ''GET'' ''/missing'' Map.empty Body_nil None)
        = Err (Error_ptr \<lparr>Response = \<lparr>ErrorCode = 404, ErrorMessage = ''not found'',
                                       Success = False\<rparr>, StatusCode = 404\<rparr>)\<close>
    by (simp add: not_found_response_def test_env_def)
  from response_classification[OF test_broken_sent c d3 p3 r3]
  have e3: \<open>fst (doRequest test_env test_world (Some ()) ''GET'' ''/broken'' Map.empty Body_nil None)
        = Err (fmt_Errorf ''failed to unmarshal response body: ''
                 (errors_New ''invalid character''))\<close>
    by (simp add: bad_gateway_response_def test_env_def)
  from response_classification[OF test_get_sent c d2 p2 r2]
  have e2: \<open>fst (doRequest test_env test_world (Some ()) ''GET'' ''/get'' Map.empty
               (Body_bytes ''ignored'') (Some 1))
        = Ok \<lparr>Body = ''{"success":true,"data":"APIKey=key_5fbea669, Signature=3166346636646235353765344745542f67657431373030303030303030, Nonce=1700000000"}'',
              Status = ''200 OK'', StatusCode = 200, Headers = Map.empty\<rparr>\<close>
    by (simp add: echo_response_def)
  show ?thesis
    using test_missing_sent test_broken_sent test_get_sent c d1 d2 d3 p4 r1 r3 e1 e2 e3
    by simp
qed

text \<open>
  C6. For every \<^verbatim>\<open>GET\<close> or \<^verbatim>\<open>DELETE\<close> call that issues a request, whatever body the
  caller passed, the request has no body and the signature covers the method, the path
  and the timestamp only.
\<close>

theorem get_delete_sign_no_body:
  fixes w :: "('ctx, 'hc) world" and env :: "('v, 'ctx, 'hc) env"
  assumes "method = ''GET'' \<or> method = ''DELETE''"
    and "sent (snd (doRequest env w ctx method endpoint query body hdrs)) = sent w @ [(req, H)]"
  shows "ReqBody req = None
       \<and> H ''Authorization'' =
           Some [Authorization_Sprintf (apiKey (client w))
                  (hex_EncodeToString (hmac_sha512 env (apiSecret (client w))
                     (method @ Path (URL req) @ fmt_Sprint (unix_clock w (unix_reads w)))))
                  (unix_clock w (unix_reads w))]"
proof -
  from sent_body[OF assms(2)] obtain bodyBytes where
      rb: "request_body env method body = Ok (bodyBytes, ReqBody req)"
    and m: "Method req = (if method = '''' then ''GET'' else method)"
    by blast
  have b: "ReqBody req = None"
    using request_body_cases[OF rb] assms(1) by auto
  show ?thesis
    using sent_Authorization[OF assms(2)] assms(1) m b by auto
qed

theorem get_delete_sign_no_body_witness:
  "(''GET'' = ''GET'' \<or> ''GET'' = ''DELETE'')
   \<and> sent (snd (doRequest test_env test_world (Some ()) ''GET'' ''/get'' Map.empty
            (Body_bytes ''ignored'') (Some 1)))
     = sent test_world @ [(get_request, get_header)]
   \<and> ReqBody get_request = None
   \<and> get_header ''Authorization'' =
       Some [''APIKey=key_5fbea669, Signature=3166346636646235353765344745542f67657431373030303030303030, Nonce=1700000000'']"
proof -
  have m: "''GET'' = ''GET'' \<or> ''GET'' = ''DELETE''" by simp
  from get_delete_sign_no_body[OF m test_get_sent]
  show ?thesis
    using test_get_sent
    by (simp add: get_request_def test_world_def test_client_def test_env_def
          Authorization_Sprintf_def fmt_Sprint_test hex_EncodeToString_def hextable_def)
qed

text \<open>
  C7. For every \<^verbatim>\<open>POST\<close> or \<^verbatim>\<open>PUT\<close> call with a nil body, the materialized body is the
  two bytes \<^verbatim>\<open>{}\<close>; when the call issues a request, these two bytes are the body of the
  request and the bytes hashed after the method, the path and the timestamp.
\<close>

theorem nil_body_is_empty_object:
  fixes w :: "('ctx, 'hc) world" and env :: "('v, 'ctx, 'hc) env"
  assumes "method = ''POST'' \<or> method = ''PUT''"
  shows "request_body env method Body_nil = Ok (''{}'', Some (Reader ''{}'' None))
       \<and> (sent (snd (doRequest env w ctx method endpoint query Body_nil hdrs)) = sent w @ [(req, H)] \<longrightarrow>
            ReqBody req = Some (Reader ''{}'' None)
          \<and> H ''Authorization'' =
              Some [Authorization_Sprintf (apiKey (client w))
                     (hex_EncodeToString (hmac_sha512 env (apiSecret (client w))
                        (method @ Path (URL req) @ fmt_Sprint (unix_clock w (unix_reads w))
                           @ ''{}'')))
                     (unix_clock w (unix_reads w))])"
proof -
  have rb: "request_body env method Body_nil = Ok (''{}'', Some (Reader ''{}'' None))"
    using assms by (rule request_body_nil)
  have "ReqBody req = Some (Reader ''{}'' None)
          \<and> H ''Authorization'' =
              Some [Authorization_Sprintf (apiKey (client w))
                     (hex_EncodeToString (hmac_sha512 env (apiSecret (client w))
                        (method @ Path (URL req) @ fmt_Sprint (unix_clock w (unix_reads w))
                           @ ''{}'')))
                     (unix_clock w (unix_reads w))]"
    if s: "sent (snd (doRequest env w ctx method endpoint query Body_nil hdrs)) = sent w @ [(req, H)]"
  proof -
    from sent_body[OF s] rb
    have b: "ReqBody req = Some (Reader ''{}'' None)"
      and m: "Method req = method"
      using assms by auto
    show ?thesis
      using sent_Authorization[OF s] assms m b by auto
  qed
  with rb show ?thesis by blast
qed

theorem nil_body_is_empty_object_witness:
  "(''PUT'' = ''POST'' \<or> ''PUT'' = ''PUT'')
   \<and> sent (snd (doRequest test_env test_world (Some ()) ''PUT'' ''/put'' Map.empty Body_nil None))
     = sent test_world @ [(put_request, put_header)]
   \<and> request_body test_env ''PUT'' Body_nil = Ok (''{}'', Some (Reader ''{}'' None))
   \<and> ReqBody put_request = Some (Reader ''{}'' None)
   \<and> put_header ''Authorization'' =
       Some [''APIKey=key_5fbea669, Signature=3166346636646235353765345055542f707574313730303030303030307b7d, Nonce=1700000000'']"
proof -
  have m: "''PUT'' = ''POST'' \<or> ''PUT'' = ''PUT''" by simp
  from nil_body_is_empty_object[OF m, of test_env test_world "Some ()" "''/put''" Map.empty None
      put_request put_header]
  show ?thesis
    using test_put_sent
    by (simp add: put_request_def test_world_def test_client_def test_env_def
          Authorization_Sprintf_def fmt_Sprint_test hex_EncodeToString_def hextable_def)
qed

text \<open>
  C8, as the specification states it: the rendered message of every \<^verbatim>\<open>Error\<close> is the
  error message followed by the status code in parentheses whenever an error message is
  present. It fails for an \<^verbatim>\<open>Error\<close> with a message and the status code 0.
\<close>

theorem Error_message_present_status_zero:
  "ErrorMessage (Response \<lparr>Response = \<lparr>ErrorCode = 404, ErrorMessage = ''not found'',
                                        Success = False\<rparr>, StatusCode = 0\<rparr>) \<noteq> ''''
   \<and> Error_Error \<lparr>Response = \<lparr>ErrorCode = 404, ErrorMessage = ''not found'', Success = False\<rparr>,
                   StatusCode = 0\<rparr> = ''unknown error (0)''
   \<and> Error_Error \<lparr>Response = \<lparr>ErrorCode = 404, ErrorMessage = ''not found'', Success = False\<rparr>,
                   StatusCode = 0\<rparr> \<noteq> ''not found (0)''"
  by (simp add: Error_Error_def fmt_Sprint_def digits.simps)

text \<open>
  C8, amended: the rendered message of an \<^verbatim>\<open>Error\<close> is the error message followed by the
  status code in parentheses when an error message is present and the status code is
  positive, and \<^verbatim>\<open>unknown error\<close> followed by the status code in parentheses otherwise.
\<close>

theorem Error_rendered_message:
  "(ErrorMessage (Response e) \<noteq> '''' \<and> 0 < Error.StatusCode e \<longrightarrow>
      Error_Error e = ErrorMessage (Response e) @ '' ('' @ fmt_Sprint (Error.StatusCode e) @ '')'')
   \<and> (\<not> (ErrorMessage (Response e) \<noteq> '''' \<and> 0 < Error.StatusCode e) \<longrightarrow>
      Error_Error e = ''unknown error ('' @ fmt_Sprint (Error.StatusCode e) @ '')'')"
  by (simp add: Error_Error_def)

theorem Error_rendered_message_witness:
  "(ErrorMessage (Response \<lparr>Response = \<lparr>ErrorCode = 404, ErrorMessage = ''not found'',
                                         Success = False\<rparr>, StatusCode = 404\<rparr>) \<noteq> ''''
    \<and> (0::int) < 404
    \<and> Error_Error \<lparr>Response = \<lparr>ErrorCode = 404, ErrorMessage = ''not found'', Success = False\<rparr>,
                    StatusCode = 404\<rparr> = ''not found (404)'')
   \<and> (\<not> (ErrorMessage (Response \<lparr>Response = \<lparr>ErrorCode = 0, ErrorMessage = '''',
                                            Success = False\<rparr>, StatusCode = 502\<rparr>) \<noteq> ''''
          \<and> (0::int) < 502)
    \<and> Error_Error \<lparr>Response = \<lparr>ErrorCode = 0, ErrorMessage = '''', Success = False\<rparr>,
                    StatusCode = 502\<rparr> = ''unknown error (502)'')"
  using Error_rendered_message[of "\<lparr>Response = \<lparr>ErrorCode = 404, ErrorMessage = ''not found'',
                                                  Success = False\<rparr>, StatusCode = 404\<rparr>"]
    Error_rendered_message[of "\<lparr>Response = \<lparr>ErrorCode = 0, ErrorMessage = '''',
                                                  Success = False\<rparr>, StatusCode = 502\<rparr>"]
  by (simp add: fmt_Sprint_def digits.simps)

text \<open>
  C9, as the specification states it: a configured user-agent is set unless a
  \<^verbatim>\<open>User-Agent\<close> header is already present. It fails for a call that brings its own
  \<^verbatim>\<open>User-Agent\<close> header: the header of the request is the user-agent of the client.
\<close>

theorem user_agent_replaces_call_header:
  "sent (snd (doRequest test_env test_world (Some ()) ''GET'' ''/get'' Map.empty
            (Body_bytes ''ignored'') (Some 1)))
     = sent test_world @ [(get_request, get_header)]
   \<and> hdr_at test_world (Some 1) ''User-Agent'' = Some [''custom'']
   \<and> userAgent (client test_world) = ''zerogate-go''
   \<and> get_header ''User-Agent'' = Some [''zerogate-go'']
   \<and> get_header ''User-Agent'' \<noteq> Some [''custom'']"
  using test_get_sent
  by (simp add: hdr_at_def test_world_def test_client_def get_header_def)

text \<open>
  C9, amended: for every call that issues a request, the headers of the request are the
  default headers of the client overlaid by the headers of the call (an entry of the call
  wins over a default entry of the same key), except for three keys: \<^verbatim>\<open>Authorization\<close>
  is set as C2 says; \<^verbatim>\<open>User-Agent\<close> is the user-agent of the client when one is
  configured, also over an entry already present, and the merged entry otherwise;
  \<^verbatim>\<open>Content-Type\<close> is \<^verbatim>\<open>application/json\<close> if and only if the merged headers have no
  \<^verbatim>\<open>Content-Type\<close> (no entry, or one whose first value is empty, which is what
  \<^verbatim>\<open>Header.Get\<close> reads), and the merged entry otherwise.
\<close>

theorem effective_headers:
  fixes w :: "('ctx, 'hc) world" and env :: "('v, 'ctx, 'hc) env"
  assumes "sent (snd (doRequest env w ctx method endpoint query body hdrs)) = sent w @ [(req, H)]"
    and "valid_ref w (headers (client w))" and "valid_ref w hdrs"
  shows "(\<forall>k. k \<noteq> ''Authorization'' \<and> k \<noteq> ''User-Agent'' \<and> k \<noteq> ''Content-Type'' \<longrightarrow>
            H k = (case hdr_at w hdrs k of
                     Some v \<Rightarrow> Some v
                   | None \<Rightarrow> hdr_at w (headers (client w)) k))
       \<and> H ''User-Agent'' =
           (if userAgent (client w) \<noteq> '''' then Some [userAgent (client w)]
            else (case hdr_at w hdrs ''User-Agent'' of
                    Some v \<Rightarrow> Some v
                  | None \<Rightarrow> hdr_at w (headers (client w)) ''User-Agent''))
       \<and> H ''Content-Type'' =
           (let merged_ct = (case hdr_at w hdrs ''Content-Type'' of
                               Some v \<Rightarrow> Some v
                             | None \<Rightarrow> hdr_at w (headers (client w)) ''Content-Type'')
            in if merged_ct = None \<or> merged_ct = Some [] \<or> (\<exists>vs. merged_ct = Some ('''' # vs))
               then Some [''application/json''] else merged_ct)"
proof -
  from sent_headers[OF assms] obtain auth where
    H: "H = finish_headers (client w) auth (hdr_at w (headers (client w)) ++ hdr_at w hdrs)"
    by blast
  have g: "map_Get m k = '''' \<longleftrightarrow> m k = None \<or> m k = Some [] \<or> (\<exists>vs. m k = Some ('''' # vs))"
    for m :: http_Header and k
    by (auto simp: map_Get_def split: option.splits list.splits)
  have ma: "(m1 ++ m2) k = (case m2 k of Some v \<Rightarrow> Some v | None \<Rightarrow> m1 k)"
    for m1 m2 :: http_Header and k
    by (simp add: map_add_def split: option.split)
  have others: "H k = (case hdr_at w hdrs k of
                     Some v \<Rightarrow> Some v
                   | None \<Rightarrow> hdr_at w (headers (client w)) k)"
    if "k \<noteq> ''Authorization''" "k \<noteq> ''User-Agent''" "k \<noteq> ''Content-Type''" for k
    using that by (simp add: H finish_headers_def Let_def ma)
  have ua: "H ''User-Agent'' =
           (if userAgent (client w) \<noteq> '''' then Some [userAgent (client w)]
            else (case hdr_at w hdrs ''User-Agent'' of
                    Some v \<Rightarrow> Some v
                  | None \<Rightarrow> hdr_at w (headers (client w)) ''User-Agent''))"
    by (simp add: H finish_headers_def Let_def ma)
  have ct0: "finish_headers c au M ''Content-Type'' =
      (if M ''Content-Type'' = None \<or> M ''Content-Type'' = Some []
            \<or> (\<exists>vs. M ''Content-Type'' = Some ('''' # vs))
       then Some [''application/json''] else M ''Content-Type'')"
    for c au and M :: http_Header
    by (auto simp: finish_headers_def Let_def map_Get_def split: option.splits list.splits)
  have ct: "H ''Content-Type'' =
           (let merged_ct = (case hdr_at w hdrs ''Content-Type'' of
                               Some v \<Rightarrow> Some v
                             | None \<Rightarrow> hdr_at w (headers (client w)) ''Content-Type'')
            in if merged_ct = None \<or> merged_ct = Some [] \<or> (\<exists>vs. merged_ct = Some ('''' # vs))
               then Some [''application/json''] else merged_ct)"
    by (simp only: H ct0 ma Let_def)
  show ?thesis using others ua ct by blast
qed

theorem effective_headers_witness:
  "sent (snd (doRequest test_env test_world (Some ()) ''GET'' ''/get'' Map.empty
            (Body_bytes ''ignored'') (Some 1)))
     = sent test_world @ [(get_request, get_header)]
   \<and> valid_ref test_world (headers (client test_world))
   \<and> valid_ref test_world (Some 1)
   \<and> hdr_at test_world (headers (client test_world)) ''X-Env'' = Some [''default'']
   \<and> hdr_at test_world (Some 1) ''X-Env'' = Some [''call'']
   \<and> get_header ''X-Env'' = Some [''call'']
   \<and> get_header ''Accept'' = Some [''application/json'']
   \<and> get_header ''User-Agent'' = Some [''zerogate-go'']
   \<and> get_header ''Content-Type'' = Some [''application/json'']"
proof -
  have v: "valid_ref test_world (headers (client test_world))" "valid_ref test_world (Some 1)"
    by (simp_all add: valid_ref_def test_world_def test_client_def)
  from effective_headers[OF test_get_sent v]
  have "get_header ''X-Env'' = Some [''call'']"
    and "get_header ''Accept'' = Some [''application/json'']"
    and "get_header ''User-Agent'' = Some [''zerogate-go'']"
    and "get_header ''Content-Type'' = Some [''application/json'']"
    by (simp_all add: hdr_at_def test_world_def test_client_def)
  then show ?thesis
    using test_get_sent v
    by (simp add: hdr_at_def test_world_def test_client_def)
qed

text \<open>
  C10. Every call leaves the client as it was: its fields are the same, every header map
  that was in the store (the default headers among them) has the same entries, and
  every \<^verbatim>\<open>http.Client\<close> struct that was in the store is the same. What the call writes
  goes to header maps and to a copy of the \<^verbatim>\<open>http.Client\<close> that it allocates itself.
\<close>

theorem doRequest_leaves_client_unchanged:
  fixes w :: "('ctx, 'hc) world" and env :: "('v, 'ctx, 'hc) env"
  shows "client (snd (doRequest env w ctx method endpoint query body hdrs)) = client w
       \<and> take (length (hdr_heap w)) (hdr_heap (snd (doRequest env w ctx method endpoint query body hdrs)))
             = hdr_heap w
       \<and> take (length (hc_heap w)) (hc_heap (snd (doRequest env w ctx method endpoint query body hdrs)))
             = hc_heap w
       \<and> (valid_ref w (headers (client w)) \<longrightarrow>
             hdr_at (snd (doRequest env w ctx method endpoint query body hdrs))
                    (headers (client (snd (doRequest env w ctx method endpoint query body hdrs))))
               = hdr_at w (headers (client w)))
       \<and> (\<forall>a. httpClient (client w) = Some a \<and> a < length (hc_heap w) \<longrightarrow>
             hc_heap (snd (doRequest env w ctx method endpoint query body hdrs)) ! a = hc_heap w ! a)"
proof -
  let ?w' = "snd (doRequest env w ctx method endpoint query body hdrs)"
  from doRequest_frame[of env w ctx "method" endpoint query body hdrs]
  have c: "client ?w' = client w"
    and h: "take (length (hdr_heap w)) (hdr_heap ?w') = hdr_heap w"
    and k: "take (length (hc_heap w)) (hc_heap ?w') = hc_heap w"
    by simp_all
  have "hdr_at ?w' (headers (client ?w')) = hdr_at w (headers (client w))"
    if "valid_ref w (headers (client w))"
    using that take_prefix_nth[OF h] take_prefix_length[OF h]
    by (auto simp: c hdr_at_def valid_ref_def split: option.splits)
  moreover have "hc_heap ?w' ! a = hc_heap w ! a" if "a < length (hc_heap w)" for a
    using that by (rule take_prefix_nth[OF k])
  ultimately show ?thesis using c h k by blast
qed

theorem doRequest_leaves_client_unchanged_witness:
  \<open>valid_ref test_world (headers (client test_world))
   \<and> httpClient (client test_world) = Some 0 \<and> (0::nat) < length (hc_heap test_world)
   \<and> client (snd (doRequest test_env test_world (Some ()) ''POST'' ''/post'' Map.empty
                 (Body_value ''{"name":"Test"}'') None)) = test_client
   \<and> hdr_at (snd (doRequest test_env test_world (Some ()) ''POST'' ''/post'' Map.empty
                 (Body_value ''{"name":"Test"}'') None)) (Some 0)
       = hdr_at test_world (Some 0)
   \<and> hc_heap test_world = [0]
   \<and> hc_heap (snd (doRequest test_env test_world (Some ()) ''POST'' ''/post'' Map.empty
                 (Body_value ''{"name":"Test"}'') None)) = [0, 1]\<close>
proof -
  let ?w' = \<open>snd (doRequest test_env test_world (Some ()) ''POST'' ''/post'' Map.empty
                 (Body_value ''{"name":"Test"}'') None)\<close>
  have v: "valid_ref test_world (headers (client test_world))"
    by (simp add: valid_ref_def test_world_def test_client_def)
  have a: "httpClient (client test_world) = Some 0" "(0::nat) < length (hc_heap test_world)"
    "client test_world = test_client" "headers test_client = Some 0" "hc_heap test_world = [0]"
    by (simp_all add: test_world_def test_client_def)
  have hc: "hc_heap ?w' = [0, 1]"
    by (simp add: test_run)
  note t = doRequest_leaves_client_unchanged[of test_env test_world "Some ()" "''POST''" "''/post''"
      Map.empty \<open>Body_value ''{"name":"Test"}''\<close> None]
  from t have c1: "client ?w' = test_client"
    by (simp add: a(3))
  from t v have "hdr_at ?w' (headers (client ?w')) = hdr_at test_world (headers (client test_world))"
    by blast
  then have c2: "hdr_at ?w' (Some 0) = hdr_at test_world (Some 0)"
    by (simp add: c1 a(3,4))
  show ?thesis
    using v a(1,2,5) hc c1 c2 by simp
qed


end
